theory Spec2Isabelle
  imports Complex_Main "HOL-Library.Log_Nat"
begin

section \<open>Data model\<close>

text \<open>
  The embedding follows \<^verbatim>\<open>npoint/src/tnpoint_spatialfuncs.c\<close>. A C \<^verbatim>\<open>double\<close> is read as a
  real number and an operation on doubles as the operation on reals: the properties below
  say which quantities are combined and in which order, not how the result of an operation
  on doubles is rounded. Where a 64-bit integer becomes a double or a double a 64-bit
  integer, and where a double is divided by a double that can be zero, the conversion and
  the quotient are written out (section Doubles and integers). A \<^verbatim>\<open>TimestampTz\<close> is a
  count of microseconds, a 64-bit integer. A network point is a route identifier and a
  relative position on that route.

  Fetching the arguments of an SQL function, freeing memory and copying on return have no
  counterpart here. \<^verbatim>\<open>ensure_valid_tempsubtype\<close> and the test of the base type cannot fail on
  the four subtypes below and are left out. Functions that are called here but defined in
  other files of the repository are parameters of the functions that call them, unless a
  text says how they are modelled.
\<close>

record npoint =
  rid :: int
  pos :: real

type_synonym TimestampTz = int

text \<open>
  The four temporal subtypes. \<^verbatim>\<open>count\<close> of the C structures is the length of the list of
  components; the interpolation bit of \<^verbatim>\<open>flags\<close> (\<^verbatim>\<open>MOBDB_FLAGS_GET_LINEAR\<close>) is a field.
\<close>

record 'v TInstant =
  tinstant_value :: 'v
  tinstant_t :: TimestampTz

record 'v TInstantSet =
  ti_instants :: "'v TInstant list"

record 'v TSequence =
  seq_instants :: "'v TInstant list"
  lower_inc :: bool
  upper_inc :: bool
  seq_linear :: bool

record 'v TSequenceSet =
  ts_sequences :: "'v TSequence list"
  ts_linear :: bool

datatype 'v Temporal =
    INSTANT "'v TInstant"
  | INSTANTSET "'v TInstantSet"
  | SEQUENCE "'v TSequence"
  | SEQUENCESET "'v TSequenceSet"

section \<open>Doubles and integers\<close>

text \<open>
  The cast \<^verbatim>\<open>(double)\<close> of a 64-bit integer gives the nearest double, the even one of two
  that are equally near. A double has 53 binary digits, so an integer of absolute value up
  to \<open>2 ^ 53\<close> is its own double; a greater one has \<open>e\<close> digits too many and is rounded to a
  multiple of \<open>2 ^ e\<close>.
\<close>

definition double_of_int64 :: "int \<Rightarrow> real" where
  "double_of_int64 t =
     (if \<bar>t\<bar> \<le> 2 ^ 53 then real_of_int t
      else
        let e = nat (bitlen \<bar>t\<bar> - 53);
            q = t div 2 ^ e;
            r = t mod 2 ^ e
        in real_of_int
             ((if 2 * r < 2 ^ e \<or> (2 * r = 2 ^ e \<and> even q) then q else q + 1) * 2 ^ e))"

text \<open>
  The quotient of two doubles. The divisor of the speed is a difference of two doubles and
  is the positive zero when they are equal; a double divided by it is an infinity with the
  sign of the dividend, and not a number when the dividend is zero too. A value of
  \<open>float8\<close> is a real, an infinity or not a number.
\<close>

datatype float8 = Float8 real | Float8_infinity | Float8_minus_infinity | Float8_nan

definition double_divide :: "real \<Rightarrow> real \<Rightarrow> float8" where
  "double_divide x y =
     (if y \<noteq> 0 then Float8 (x / y)
      else if 0 < x then Float8_infinity
      else if x < 0 then Float8_minus_infinity
      else Float8_nan)"

text \<open>The zero of \<open>float8\<close> is the double 0.0.\<close>

instantiation float8 :: zero
begin

definition zero_float8 :: float8 where
  "zero_float8 = Float8 0"

instance ..

end

text \<open>
  A sum or a difference of two 64-bit integers is taken modulo \<open>2 ^ 64\<close> and read as a signed
  number.
\<close>

definition int64 :: "int \<Rightarrow> int" where
  "int64 x = signed_take_bit 63 x"

text \<open>
  The rounding of a real to the nearest double, the even one of two that are equally near:
  a multiple of \<open>2 ^ e\<close> where \<open>e\<close> leaves 53 binary digits. It is written out for the one
  product of this file that is cast to an integer. The cast \<^verbatim>\<open>(long)\<close> of a double drops
  the fractional part.
\<close>

definition round_half_even :: "real \<Rightarrow> int" where
  "round_half_even y =
     (let f = \<lfloor>y\<rfloor>;
          r = y - real_of_int f
      in if r < 1 / 2 \<or> (r = 1 / 2 \<and> even f) then f else f + 1)"

definition double_round :: "real \<Rightarrow> real" where
  "double_round x =
     (if x = 0 then 0
      else
        let e = \<lfloor>log 2 \<bar>x\<bar>\<rfloor> - 52
        in real_of_int (round_half_even (x / 2 powi e)) * 2 powi e)"

definition cast_long :: "real \<Rightarrow> int" where
  "cast_long x = (if 0 \<le> x then \<lfloor>x\<rfloor> else \<lceil>x\<rceil>)"

definition seq_count :: "'v TSequence \<Rightarrow> nat" where
  "seq_count seq = length (seq_instants seq)"

definition tsequence_inst_n :: "'v TSequence \<Rightarrow> nat \<Rightarrow> 'v TInstant" where
  "tsequence_inst_n seq i = seq_instants seq ! i"

section \<open>Length\<close>

text \<open>
  The loop of \<^verbatim>\<open>tnpointseq_length\<close> over the instants \<^verbatim>\<open>1 .. count - 1\<close>: \<^verbatim>\<open>np1\<close> is the
  previous network point and \<^verbatim>\<open>fraction\<close> the running sum.
\<close>

fun tnpointseq_length_loop :: "npoint TInstant list \<Rightarrow> npoint \<Rightarrow> real \<Rightarrow> real" where
  "tnpointseq_length_loop [] np1 fraction = fraction"
| "tnpointseq_length_loop (inst # insts) np1 fraction =
     (let np2 = tinstant_value inst
      in tnpointseq_length_loop insts np2 (fraction + \<bar>pos np2 - pos np1\<bar>))"

text \<open>
  \<^verbatim>\<open>route_length\<close> is the catalogue lookup of a route's length; it is not part of this
  file of the repository and is a parameter here.
\<close>

definition tnpointseq_length :: "(int \<Rightarrow> real) \<Rightarrow> npoint TSequence \<Rightarrow> real" where
  "tnpointseq_length route_length seq =
     (if seq_count seq = 1 then 0
      else
        let inst = tsequence_inst_n seq 0;
            np1 = tinstant_value inst;
            length = route_length (rid np1);
            fraction = tnpointseq_length_loop (drop 1 (seq_instants seq)) np1 0
        in length * fraction)"

fun tnpoints_length_loop :: "(int \<Rightarrow> real) \<Rightarrow> npoint TSequence list \<Rightarrow> real \<Rightarrow> real" where
  "tnpoints_length_loop route_length [] result = result"
| "tnpoints_length_loop route_length (seq # seqs) result =
     tnpoints_length_loop route_length seqs (result + tnpointseq_length route_length seq)"

definition tnpoints_length :: "(int \<Rightarrow> real) \<Rightarrow> npoint TSequenceSet \<Rightarrow> real" where
  "tnpoints_length route_length ts = tnpoints_length_loop route_length (ts_sequences ts) 0"

fun tnpoint_length :: "(int \<Rightarrow> real) \<Rightarrow> npoint Temporal \<Rightarrow> real" where
  "tnpoint_length route_length (INSTANT inst) = 0.0"
| "tnpoint_length route_length (INSTANTSET ti) = 0.0"
| "tnpoint_length route_length (SEQUENCE seq) =
     (if \<not> seq_linear seq then 0.0 else tnpointseq_length route_length seq)"
| "tnpoint_length route_length (SEQUENCESET ts) =
     (if \<not> ts_linear ts then 0.0 else tnpoints_length route_length ts)"

text \<open>The sum of the absolute position differences of consecutive instants.\<close>

definition sum_abs_delta :: "npoint TInstant list \<Rightarrow> real" where
  "sum_abs_delta insts =
     (\<Sum>i = 0..<length insts - 1.
        \<bar>pos (tinstant_value (insts ! (i + 1))) - pos (tinstant_value (insts ! i))\<bar>)"

text \<open>
  Every sequence holds at least one instant and every sequence set at least one sequence
  (the constructors of the repository refuse anything else); the C code reads instant 0
  without a test.
\<close>

fun valid_temporal :: "'v Temporal \<Rightarrow> bool" where
  "valid_temporal (INSTANT inst) = True"
| "valid_temporal (INSTANTSET ti) = (ti_instants ti \<noteq> [])"
| "valid_temporal (SEQUENCE seq) = (seq_instants seq \<noteq> [])"
| "valid_temporal (SEQUENCESET ts) =
     (ts_sequences ts \<noteq> [] \<and> list_all (\<lambda>seq. seq_instants seq \<noteq> []) (ts_sequences ts))"

section \<open>Constructors\<close>

text \<open>
  Modelled from the spec: the constructors \<^verbatim>\<open>tinstant_make\<close>, \<^verbatim>\<open>tinstantset_make\<close>,
  \<^verbatim>\<open>tsequence_make\<close>, \<^verbatim>\<open>tsequence_make_free\<close>, \<^verbatim>\<open>tsequenceset_make\<close> and
  \<^verbatim>\<open>tsequenceset_make_free\<close> are called here but defined elsewhere in the repository.
  Following the data model of the specification, an instant is a value at a timestamp, a
  sequence is its ordered instants with the two inclusivity flags and the interpolation
  flag, and a sequence set is its ordered sequences, which share one interpolation. What the
  constructors do with their instants when the last argument \<^verbatim>\<open>normalize\<close> is true is not
  described; it is the parameter \<open>normi\<close> (for sequences) and \<open>norms\<close> (for sequence sets),
  applied only then. The \<^verbatim>\<open>_free\<close> variants differ in memory management only. The argument
  for the type of the values has no counterpart.

  The macro \<^verbatim>\<open>STEP\<close> is the value of the interpolation flag that is not linear: where it is
  passed for that flag, the comments of the file say that the result has stepwise
  interpolation.
\<close>

definition STEP :: bool where
  "STEP = False"

definition tinstant_make :: "'v \<Rightarrow> TimestampTz \<Rightarrow> 'v TInstant" where
  "tinstant_make v tm = \<lparr>tinstant_value = v, tinstant_t = tm\<rparr>"

definition tinstantset_make :: "'v TInstant list \<Rightarrow> 'v TInstantSet" where
  "tinstantset_make instants = \<lparr>ti_instants = instants\<rparr>"

definition tsequence_make ::
  "(bool \<Rightarrow> 'v TInstant list \<Rightarrow> 'v TInstant list) \<Rightarrow>
   'v TInstant list \<Rightarrow> bool \<Rightarrow> bool \<Rightarrow> bool \<Rightarrow> bool \<Rightarrow> 'v TSequence" where
  "tsequence_make normi instants lower_inc1 upper_inc1 linear1 normalize1 =
     \<lparr>seq_instants = (if normalize1 then normi linear1 instants else instants),
      lower_inc = lower_inc1, upper_inc = upper_inc1, seq_linear = linear1\<rparr>"

definition tsequenceset_make ::
  "('v TSequence list \<Rightarrow> 'v TSequence list) \<Rightarrow> 'v TSequence list \<Rightarrow> bool \<Rightarrow> 'v TSequenceSet" where
  "tsequenceset_make norms sequences normalize1 =
     \<lparr>ts_sequences = (if normalize1 then norms sequences else sequences),
      ts_linear = seq_linear (sequences ! 0)\<rparr>"

section \<open>Cumulative length\<close>

text \<open>
  \<^verbatim>\<open>tnpointinst_set_zero\<close> and \<^verbatim>\<open>tnpointi_set_zero\<close> serve the cumulative length, whose
  values are reals here, and the speed, whose values are of \<open>float8\<close>; the double 0.0 is
  the zero of either type.
\<close>

definition tnpointinst_set_zero :: "npoint TInstant \<Rightarrow> ('f::zero) TInstant" where
  "tnpointinst_set_zero inst = tinstant_make 0 (tinstant_t inst)"

definition tnpointi_set_zero :: "npoint TInstantSet \<Rightarrow> ('f::zero) TInstantSet" where
  "tnpointi_set_zero ti =
     (let zero = 0
      in tinstantset_make (map (\<lambda>inst. tinstant_make zero (tinstant_t inst)) (ti_instants ti)))"

text \<open>
  The loop of the linear branch of \<^verbatim>\<open>tnpointseq_cumulative_length\<close> over the instants
  \<^verbatim>\<open>1 .. count - 1\<close>; it yields \<^verbatim>\<open>instants[1 .. count - 1]\<close>. The running total
  \<^verbatim>\<open>length\<close> is \<open>length0\<close> before an iteration and \<open>length1\<close> after it.
\<close>

fun tnpointseq_cumulative_length_loop ::
  "real \<Rightarrow> npoint TInstant list \<Rightarrow> npoint \<Rightarrow> real \<Rightarrow> real TInstant list" where
  "tnpointseq_cumulative_length_loop rlength [] np1 length0 = []"
| "tnpointseq_cumulative_length_loop rlength (inst2 # insts) np1 length0 =
     (let np2 = tinstant_value inst2;
          length1 = length0 + \<bar>pos np2 - pos np1\<bar> * rlength
      in tinstant_make length1 (tinstant_t inst2) #
         tnpointseq_cumulative_length_loop rlength insts np2 length1)"

definition tnpointseq_cumulative_length ::
  "(int \<Rightarrow> real) \<Rightarrow> (bool \<Rightarrow> real TInstant list \<Rightarrow> real TInstant list) \<Rightarrow>
   npoint TSequence \<Rightarrow> real \<Rightarrow> real TSequence" where
  "tnpointseq_cumulative_length route_length normi seq prevlength =
     (if seq_count seq = 1 then
        let inst1 = tsequence_inst_n seq 0;
            inst = tinstant_make prevlength (tinstant_t inst1)
        in tsequence_make normi [inst] True True True False
      else if \<not> seq_linear seq then
        let length = 0.0
        in tsequence_make normi
             (map (\<lambda>inst1. tinstant_make length (tinstant_t inst1)) (seq_instants seq))
             (lower_inc seq) (upper_inc seq) (seq_linear seq) False
      else
        let inst1 = tsequence_inst_n seq 0;
            np1 = tinstant_value inst1;
            rlength = route_length (rid np1);
            length = prevlength
        in tsequence_make normi
             (tinstant_make length (tinstant_t inst1) #
              tnpointseq_cumulative_length_loop rlength (drop 1 (seq_instants seq)) np1 length)
             (lower_inc seq) (upper_inc seq) (seq_linear seq) False)"

text \<open>
  The loop of \<^verbatim>\<open>tnpoints_cumulative_length\<close>: \<^verbatim>\<open>length\<close> is the seed given to the next
  component; after each component the value of the instant \<^verbatim>\<open>seq->count - 1\<close> of its
  result is added to it (\<^verbatim>\<open>length += ...\<close>).
\<close>

fun tnpoints_cumulative_length_loop ::
  "(int \<Rightarrow> real) \<Rightarrow> (bool \<Rightarrow> real TInstant list \<Rightarrow> real TInstant list) \<Rightarrow>
   npoint TSequence list \<Rightarrow> real \<Rightarrow> real TSequence list" where
  "tnpoints_cumulative_length_loop route_length normi [] length0 = []"
| "tnpoints_cumulative_length_loop route_length normi (seq # seqs) length0 =
     (let sequence = tnpointseq_cumulative_length route_length normi seq length0;
          end1 = tsequence_inst_n sequence (seq_count seq - 1);
          length1 = length0 + tinstant_value end1
      in sequence # tnpoints_cumulative_length_loop route_length normi seqs length1)"

definition tnpoints_cumulative_length ::
  "(int \<Rightarrow> real) \<Rightarrow> (bool \<Rightarrow> real TInstant list \<Rightarrow> real TInstant list) \<Rightarrow>
   (real TSequence list \<Rightarrow> real TSequence list) \<Rightarrow> npoint TSequenceSet \<Rightarrow> real TSequenceSet" where
  "tnpoints_cumulative_length route_length normi norms ts =
     tsequenceset_make norms
       (tnpoints_cumulative_length_loop route_length normi (ts_sequences ts) 0) False"

fun tnpoint_cumulative_length ::
  "(int \<Rightarrow> real) \<Rightarrow> (bool \<Rightarrow> real TInstant list \<Rightarrow> real TInstant list) \<Rightarrow>
   (real TSequence list \<Rightarrow> real TSequence list) \<Rightarrow> npoint Temporal \<Rightarrow> real Temporal" where
  "tnpoint_cumulative_length route_length normi norms (INSTANT inst) =
     INSTANT (tnpointinst_set_zero inst)"
| "tnpoint_cumulative_length route_length normi norms (INSTANTSET ti) =
     INSTANTSET (tnpointi_set_zero ti)"
| "tnpoint_cumulative_length route_length normi norms (SEQUENCE seq) =
     SEQUENCE (tnpointseq_cumulative_length route_length normi seq 0)"
| "tnpoint_cumulative_length route_length normi norms (SEQUENCESET ts) =
     SEQUENCESET (tnpoints_cumulative_length route_length normi norms ts)"

section \<open>Speed\<close>

text \<open>
  The loop of the linear branch of \<^verbatim>\<open>tnpointseq_speed\<close> over \<^verbatim>\<open>i = 0 .. count - 2\<close>, given
  the instants \<^verbatim>\<open>i + 1 ..\<close> still to read, and the assignment to \<^verbatim>\<open>instants[count - 1]\<close> that
  follows it. \<^verbatim>\<open>inst2\<close> starts as \<^verbatim>\<open>NULL\<close> and \<^verbatim>\<open>speed\<close> as 0; the loop runs at least once
  when the sequence has two instants, so the final read of \<^verbatim>\<open>inst2->t\<close> finds an instant.
  Each of the two timestamps is cast to a double before the subtraction.
\<close>

fun tnpointseq_speed_loop ::
  "real \<Rightarrow> npoint TInstant list \<Rightarrow> npoint TInstant \<Rightarrow> npoint \<Rightarrow>
   npoint TInstant option \<Rightarrow> float8 \<Rightarrow> float8 TInstant list" where
  "tnpointseq_speed_loop rlength [] inst1 np1 inst2 speed =
     (case inst2 of
        None \<Rightarrow> []
      | Some inst \<Rightarrow> [tinstant_make speed (tinstant_t inst)])"
| "tnpointseq_speed_loop rlength (inst # insts) inst1 np1 inst2 speed =
     (let np2 = tinstant_value inst;
          length = \<bar>pos np2 - pos np1\<bar> * rlength;
          speed1 = double_divide length
            ((double_of_int64 (tinstant_t inst) - double_of_int64 (tinstant_t inst1)) / 1000000)
      in tinstant_make speed1 (tinstant_t inst1) #
         tnpointseq_speed_loop rlength insts inst np2 (Some inst) speed1)"

definition tnpointseq_speed ::
  "(int \<Rightarrow> real) \<Rightarrow> (bool \<Rightarrow> float8 TInstant list \<Rightarrow> float8 TInstant list) \<Rightarrow>
   npoint TSequence \<Rightarrow> float8 TSequence option" where
  "tnpointseq_speed route_length normi seq =
     (if seq_count seq = 1 then None
      else if \<not> seq_linear seq then
        let length = Float8 0.0
        in Some (tsequence_make normi
             (map (\<lambda>inst. tinstant_make length (tinstant_t inst)) (seq_instants seq))
             (lower_inc seq) (upper_inc seq) STEP True)
      else
        let inst1 = tsequence_inst_n seq 0;
            np1 = tinstant_value inst1;
            rlength = route_length (rid np1)
        in Some (tsequence_make normi
             (tnpointseq_speed_loop rlength (drop 1 (seq_instants seq)) inst1 np1 None
                (Float8 0))
             (lower_inc seq) (upper_inc seq) STEP True))"

text \<open>The loop of \<^verbatim>\<open>tnpoints_speed\<close>: the results that are not \<^verbatim>\<open>NULL\<close>, in order.\<close>

fun tnpoints_speed_loop ::
  "(int \<Rightarrow> real) \<Rightarrow> (bool \<Rightarrow> float8 TInstant list \<Rightarrow> float8 TInstant list) \<Rightarrow>
   npoint TSequence list \<Rightarrow> float8 TSequence list" where
  "tnpoints_speed_loop route_length normi [] = []"
| "tnpoints_speed_loop route_length normi (seq # seqs) =
     (case tnpointseq_speed route_length normi seq of
        None \<Rightarrow> tnpoints_speed_loop route_length normi seqs
      | Some seq1 \<Rightarrow> seq1 # tnpoints_speed_loop route_length normi seqs)"

definition tnpoints_speed ::
  "(int \<Rightarrow> real) \<Rightarrow> (bool \<Rightarrow> float8 TInstant list \<Rightarrow> float8 TInstant list) \<Rightarrow>
   (float8 TSequence list \<Rightarrow> float8 TSequence list) \<Rightarrow> npoint TSequenceSet \<Rightarrow>
   float8 TSequenceSet option" where
  "tnpoints_speed route_length normi norms ts =
     (let sequences = tnpoints_speed_loop route_length normi (ts_sequences ts)
      in if length sequences = 0 then None
         else Some (tsequenceset_make norms sequences STEP))"

text \<open>
  \<^verbatim>\<open>tnpoint_speed\<close>: \<open>None\<close> is the SQL \<^verbatim>\<open>NULL\<close> it returns when the result pointer is
  \<^verbatim>\<open>NULL\<close>.
\<close>

fun tnpoint_speed ::
  "(int \<Rightarrow> real) \<Rightarrow> (bool \<Rightarrow> float8 TInstant list \<Rightarrow> float8 TInstant list) \<Rightarrow>
   (float8 TSequence list \<Rightarrow> float8 TSequence list) \<Rightarrow> npoint Temporal \<Rightarrow>
   float8 Temporal option" where
  "tnpoint_speed route_length normi norms (INSTANT inst) =
     Some (INSTANT (tnpointinst_set_zero inst))"
| "tnpoint_speed route_length normi norms (INSTANTSET ti) =
     Some (INSTANTSET (tnpointi_set_zero ti))"
| "tnpoint_speed route_length normi norms (SEQUENCE seq) =
     map_option SEQUENCE (tnpointseq_speed route_length normi seq)"
| "tnpoint_speed route_length normi norms (SEQUENCESET ts) =
     map_option SEQUENCESET (tnpoints_speed route_length normi norms ts)"

section \<open>Errors and geometries\<close>

text \<open>
  An error raised with \<^verbatim>\<open>ereport(ERROR, ...)\<close> or \<^verbatim>\<open>elog(ERROR, ...)\<close>, or a failed
  \<^verbatim>\<open>assert\<close>, ends the call; a function that can raise returns \<open>error + 'a\<close>. A function
  of the SQL interface that can return \<^verbatim>\<open>NULL\<close> returns an option.
\<close>

datatype error =
    Assert_failure
  | ERRCODE_INVALID_PARAMETER_VALUE string
  | ERRCODE_INTERNAL_ERROR string

definition bind_error :: "error + 'a \<Rightarrow> ('a \<Rightarrow> error + 'b) \<Rightarrow> error + 'b" where
  "bind_error r f = (case r of Inl e \<Rightarrow> Inl e | Inr x \<Rightarrow> f x)"

record nsegment =
  nsegment_rid :: int
  pos1 :: real
  pos2 :: real

text \<open>
  The geometries this file builds come from the resolver of network points and from the
  geometry kernel, neither of which is part of this file. A geometry is written as the call
  that builds it, under the name of the C function: the point of a network point, the
  multipoint of an array of network points, the line of a network segment and of an array
  of segments, the line of a route, the part of a line between two fractions, and a line
  reversed.
\<close>

datatype geom =
    npoint_as_geom_internal npoint
  | npointarr_to_geom_internal "npoint list"
  | nsegment_as_geom_internal nsegment
  | nsegmentarr_to_geom_internal "nsegment list"
  | route_geom int
  | LWGEOM_line_substring geom real real
  | LWGEOM_reverse geom

text \<open>
  A geometry argument of the SQL interface, with what the accessors
  \<^verbatim>\<open>gserialized_get_srid\<close>, \<^verbatim>\<open>gserialized_is_empty\<close> and the test of the Z flag read from it.
\<close>

record GSERIALIZED =
  gserialized_get_srid :: int
  gserialized_is_empty :: bool
  gserialized_has_z :: bool

section \<open>Trajectory\<close>

definition tnpointseq_trajectory1 :: "npoint TInstant \<Rightarrow> npoint TInstant \<Rightarrow> error + geom" where
  "tnpointseq_trajectory1 inst1 inst2 =
     (let np1 = tinstant_value inst1;
          np2 = tinstant_value inst2
      in if rid np1 \<noteq> rid np2 then Inl Assert_failure
         else if pos np1 = pos np2 then Inr (npoint_as_geom_internal np1)
         else
           let line = route_geom (rid np1)
           in if (pos np1 = 0 \<and> pos np2 = 1) \<or> (pos np2 = 0 \<and> pos np1 = 1) then Inr line
              else if pos np1 < pos np2 then
                Inr (LWGEOM_line_substring line (pos np1) (pos np2))
              else
                let traj2 = LWGEOM_line_substring line (pos np2) (pos np1)
                in Inr (LWGEOM_reverse traj2))"

text \<open>
  The search of the inner loops of the three functions below: is \<open>np\<close> equal to one of the
  points kept so far? \<^verbatim>\<open>npoint_eq_internal\<close> is defined elsewhere in the repository and is
  the parameter \<open>eq\<close>.
\<close>

fun npoint_found :: "(npoint \<Rightarrow> npoint \<Rightarrow> bool) \<Rightarrow> npoint \<Rightarrow> npoint list \<Rightarrow> bool" where
  "npoint_found eq np [] = False"
| "npoint_found eq np (r # rs) = (if eq np r then True else npoint_found eq np rs)"

text \<open>
  The loop over the instants of one instant set or one sequence: \<open>result\<close> holds the \<open>k\<close>
  points kept so far, and a point not found among them is appended.
\<close>

fun npoints_loop ::
  "(npoint \<Rightarrow> npoint \<Rightarrow> bool) \<Rightarrow> npoint TInstant list \<Rightarrow> npoint list \<Rightarrow> npoint list" where
  "npoints_loop eq [] result = result"
| "npoints_loop eq (inst # insts) result =
     (let np = tinstant_value inst
      in npoints_loop eq insts (if npoint_found eq np result then result else result @ [np]))"

definition tnpointi_npoints ::
  "(npoint \<Rightarrow> npoint \<Rightarrow> bool) \<Rightarrow> npoint TInstantSet \<Rightarrow> npoint list" where
  "tnpointi_npoints eq ti =
     npoints_loop eq (drop 1 (ti_instants ti)) [tinstant_value (ti_instants ti ! 0)]"

definition tnpointseq_step_npoints ::
  "(npoint \<Rightarrow> npoint \<Rightarrow> bool) \<Rightarrow> npoint TSequence \<Rightarrow> npoint list" where
  "tnpointseq_step_npoints eq seq =
     npoints_loop eq (drop 1 (seq_instants seq)) [tinstant_value (tsequence_inst_n seq 0)]"

text \<open>
  The outer loop of \<^verbatim>\<open>tnpoints_step_npoints\<close> runs over the sequences \<^verbatim>\<open>1 .. count - 1\<close> and
  its inner loop over the instants \<^verbatim>\<open>1 .. seq->count - 1\<close> of each.
\<close>

fun tnpoints_step_npoints_loop ::
  "(npoint \<Rightarrow> npoint \<Rightarrow> bool) \<Rightarrow> npoint TSequence list \<Rightarrow> npoint list \<Rightarrow> npoint list" where
  "tnpoints_step_npoints_loop eq [] result = result"
| "tnpoints_step_npoints_loop eq (seq # seqs) result =
     tnpoints_step_npoints_loop eq seqs (npoints_loop eq (drop 1 (seq_instants seq)) result)"

definition tnpoints_step_npoints ::
  "(npoint \<Rightarrow> npoint \<Rightarrow> bool) \<Rightarrow> npoint TSequenceSet \<Rightarrow> npoint list" where
  "tnpoints_step_npoints eq ts =
     (let seq = ts_sequences ts ! 0
      in tnpoints_step_npoints_loop eq (drop 1 (ts_sequences ts))
           [tinstant_value (tsequence_inst_n seq 0)])"

definition tnpointinst_geom :: "npoint TInstant \<Rightarrow> geom" where
  "tnpointinst_geom inst = npoint_as_geom_internal (tinstant_value inst)"

definition tnpointi_geom :: "(npoint \<Rightarrow> npoint \<Rightarrow> bool) \<Rightarrow> npoint TInstantSet \<Rightarrow> geom" where
  "tnpointi_geom eq ti =
     (if length (ti_instants ti) = 1 then tnpointinst_geom (ti_instants ti ! 0)
      else npointarr_to_geom_internal (tnpointi_npoints eq ti))"

text \<open>
  \<^verbatim>\<open>tnpointseq_linear_positions\<close> and \<^verbatim>\<open>tnpoints_positions\<close>, the network segments covered
  by a linear sequence and by a linear sequence set, are defined elsewhere in the
  repository; they are the parameters \<open>linear_positions\<close> and \<open>positions\<close>.
\<close>

definition tnpointseq_geom ::
  "(npoint \<Rightarrow> npoint \<Rightarrow> bool) \<Rightarrow> (npoint TSequence \<Rightarrow> nsegment) \<Rightarrow> npoint TSequence \<Rightarrow> geom" where
  "tnpointseq_geom eq linear_positions seq =
     (if seq_count seq = 1 then tnpointinst_geom (tsequence_inst_n seq 0)
      else if seq_linear seq then nsegment_as_geom_internal (linear_positions seq)
      else npointarr_to_geom_internal (tnpointseq_step_npoints eq seq))"

definition tnpoints_geom ::
  "(npoint \<Rightarrow> npoint \<Rightarrow> bool) \<Rightarrow> (npoint TSequence \<Rightarrow> nsegment) \<Rightarrow>
   (npoint TSequenceSet \<Rightarrow> nsegment list) \<Rightarrow> npoint TSequenceSet \<Rightarrow> geom" where
  "tnpoints_geom eq linear_positions positions ts =
     (if length (ts_sequences ts) = 1 then
        tnpointseq_geom eq linear_positions (ts_sequences ts ! 0)
      else if ts_linear ts then nsegmentarr_to_geom_internal (positions ts)
      else npointarr_to_geom_internal (tnpoints_step_npoints eq ts))"

fun tnpoint_geom ::
  "(npoint \<Rightarrow> npoint \<Rightarrow> bool) \<Rightarrow> (npoint TSequence \<Rightarrow> nsegment) \<Rightarrow>
   (npoint TSequenceSet \<Rightarrow> nsegment list) \<Rightarrow> npoint Temporal \<Rightarrow> geom" where
  "tnpoint_geom eq linear_positions positions (INSTANT inst) = tnpointinst_geom inst"
| "tnpoint_geom eq linear_positions positions (INSTANTSET ti) = tnpointi_geom eq ti"
| "tnpoint_geom eq linear_positions positions (SEQUENCE seq) =
     tnpointseq_geom eq linear_positions seq"
| "tnpoint_geom eq linear_positions positions (SEQUENCESET ts) =
     tnpoints_geom eq linear_positions positions ts"

text \<open>
  Modelled from the spec: \<^verbatim>\<open>npoint_eq_internal\<close> is not in this file. The specification gives
  the equality of two positions on one route: the same route identifier and positions
  less than \<open>\<epsilon>\<close> apart. The constant \<^verbatim>\<open>EPSILON\<close> is the parameter \<open>epsilon\<close>.
\<close>

definition npoint_eq_internal :: "real \<Rightarrow> npoint \<Rightarrow> npoint \<Rightarrow> bool" where
  "npoint_eq_internal epsilon np1 np2 \<longleftrightarrow> rid np1 = rid np2 \<and> \<bar>pos np1 - pos np2\<bar> < epsilon"

section \<open>Restriction to a geometry\<close>

text \<open>
  \<^verbatim>\<open>tnpointinst_srid\<close> reads the SRID of the geometry of the route of the instant; that read
  is the parameter \<open>route_srid\<close>. For the other subtypes \<^verbatim>\<open>tnpoint_srid_internal\<close> calls
  functions of the temporal point module, which take the SRID from the bounding box; they
  are the parameter \<open>box_srid\<close>.
\<close>

definition tnpointinst_srid :: "(int \<Rightarrow> int) \<Rightarrow> npoint TInstant \<Rightarrow> int" where
  "tnpointinst_srid route_srid inst = route_srid (rid (tinstant_value inst))"

fun tnpoint_srid_internal ::
  "(int \<Rightarrow> int) \<Rightarrow> (npoint Temporal \<Rightarrow> int) \<Rightarrow> npoint Temporal \<Rightarrow> int" where
  "tnpoint_srid_internal route_srid box_srid (INSTANT inst) = tnpointinst_srid route_srid inst"
| "tnpoint_srid_internal route_srid box_srid (INSTANTSET ti) = box_srid (INSTANTSET ti)"
| "tnpoint_srid_internal route_srid box_srid (SEQUENCE seq) = box_srid (SEQUENCE seq)"
| "tnpoint_srid_internal route_srid box_srid (SEQUENCESET ts) = box_srid (SEQUENCESET ts)"

definition ensure_same_srid_tnpoint_gs ::
  "(int \<Rightarrow> int) \<Rightarrow> (npoint Temporal \<Rightarrow> int) \<Rightarrow> npoint Temporal \<Rightarrow> GSERIALIZED \<Rightarrow> error + unit" where
  "ensure_same_srid_tnpoint_gs route_srid box_srid temp gs =
     (if tnpoint_srid_internal route_srid box_srid temp \<noteq> gserialized_get_srid gs then
        Inl (ERRCODE_INVALID_PARAMETER_VALUE
          ''The temporal network point and the geometry must be in the same SRID'')
      else Inr ())"

text \<open>
  Modelled from the spec: \<^verbatim>\<open>ensure_has_not_Z_gs\<close> is not in this file; the specification
  says that a restriction geometry with a Z dimension is rejected as invalid input.
\<close>

definition ensure_has_not_Z_gs :: "GSERIALIZED \<Rightarrow> error + unit" where
  "ensure_has_not_Z_gs gs =
     (if gserialized_has_z gs then
        Inl (ERRCODE_INVALID_PARAMETER_VALUE ''Only geometries without Z dimension accepted'')
      else Inr ())"

text \<open>The two modes of a restriction, the macros \<^verbatim>\<open>REST_AT\<close> and \<^verbatim>\<open>REST_MINUS\<close>.\<close>

datatype restrict_mode = REST_AT | REST_MINUS

text \<open>
  Modelled from the spec: \<^verbatim>\<open>temporal_copy\<close> is not in this file; a copy is equal to the
  value copied.
\<close>

definition temporal_copy :: "'v Temporal \<Rightarrow> 'v Temporal" where
  "temporal_copy temp = temp"

text \<open>
  The three steps of a restriction are functions of other modules and are parameters; each
  may raise an error: \<open>as_tgeompoint\<close> (\<^verbatim>\<open>tnpoint_as_tgeompoint_internal\<close>),
  \<open>restrict_geometry\<close> (\<^verbatim>\<open>tpoint_restrict_geometry_internal\<close>, which may return \<^verbatim>\<open>NULL\<close>)
  and \<open>as_tnpoint\<close> (\<^verbatim>\<open>tgeompoint_as_tnpoint_internal\<close>, whose result is tested against
  \<^verbatim>\<open>NULL\<close>).
\<close>

definition tnpoint_at_geometry ::
  "(int \<Rightarrow> int) \<Rightarrow> (npoint Temporal \<Rightarrow> int) \<Rightarrow>
   (npoint Temporal \<Rightarrow> error + 'g Temporal) \<Rightarrow>
   ('g Temporal \<Rightarrow> GSERIALIZED \<Rightarrow> restrict_mode \<Rightarrow> error + 'g Temporal option) \<Rightarrow>
   ('g Temporal \<Rightarrow> error + npoint Temporal option) \<Rightarrow> npoint Temporal \<Rightarrow> GSERIALIZED \<Rightarrow>
   error + npoint Temporal option" where
  "tnpoint_at_geometry route_srid box_srid as_tgeompoint restrict_geometry as_tnpoint temp gs =
     bind_error (ensure_same_srid_tnpoint_gs route_srid box_srid temp gs) (\<lambda>_.
       if gserialized_is_empty gs then Inr None
       else
         bind_error (ensure_has_not_Z_gs gs) (\<lambda>_.
         bind_error (as_tgeompoint temp) (\<lambda>geomtemp.
         bind_error (restrict_geometry geomtemp gs REST_AT) (\<lambda>geomresult.
           case geomresult of
             None \<Rightarrow> Inr None
           | Some g \<Rightarrow> as_tnpoint g))))"

definition tnpoint_minus_geometry ::
  "(int \<Rightarrow> int) \<Rightarrow> (npoint Temporal \<Rightarrow> int) \<Rightarrow>
   (npoint Temporal \<Rightarrow> error + 'g Temporal) \<Rightarrow>
   ('g Temporal \<Rightarrow> GSERIALIZED \<Rightarrow> restrict_mode \<Rightarrow> error + 'g Temporal option) \<Rightarrow>
   ('g Temporal \<Rightarrow> error + npoint Temporal option) \<Rightarrow> npoint Temporal \<Rightarrow> GSERIALIZED \<Rightarrow>
   error + npoint Temporal option" where
  "tnpoint_minus_geometry route_srid box_srid as_tgeompoint restrict_geometry as_tnpoint temp gs =
     bind_error (ensure_same_srid_tnpoint_gs route_srid box_srid temp gs) (\<lambda>_.
       if gserialized_is_empty gs then
         let copy = temporal_copy temp
         in Inr (Some copy)
       else
         bind_error (ensure_has_not_Z_gs gs) (\<lambda>_.
         bind_error (as_tgeompoint temp) (\<lambda>geomtemp.
         bind_error (restrict_geometry geomtemp gs REST_MINUS) (\<lambda>geomresult.
           case geomresult of
             None \<Rightarrow> Inr None
           | Some g \<Rightarrow> as_tnpoint g))))"

section \<open>Nearest approach and shortest line against a geometry\<close>

text \<open>
  The functions of the geometry kernel and of the temporal point module are parameters,
  and each may raise an error: \<open>distance\<close> and \<open>shortestline2d\<close> (\<^verbatim>\<open>LWGEOM_shortestline2d\<close>)
  on a trajectory and a geometry, \<open>as_tgeompoint\<close> (\<^verbatim>\<open>tnpoint_as_tgeompoint_internal\<close>),
  \<open>NAI_tpoint_geo\<close> (\<^verbatim>\<open>NAI_tpoint_geo_internal\<close>) and \<open>as_tnpointinst\<close>
  (\<^verbatim>\<open>tgeompointinst_as_tnpointinst\<close>). The trajectory is \<^verbatim>\<open>tnpoint_geom\<close> above with its
  three parameters.
\<close>

definition NAI_geometry_tnpoint ::
  "(npoint Temporal \<Rightarrow> error + 'g Temporal) \<Rightarrow> ('g Temporal \<Rightarrow> GSERIALIZED \<Rightarrow> error + 'g TInstant) \<Rightarrow>
   ('g TInstant \<Rightarrow> error + npoint TInstant) \<Rightarrow> GSERIALIZED \<Rightarrow> npoint Temporal \<Rightarrow>
   error + npoint TInstant option" where
  "NAI_geometry_tnpoint as_tgeompoint NAI_tpoint_geo as_tnpointinst gs temp =
     (if gserialized_is_empty gs then Inr None
      else
        bind_error (as_tgeompoint temp) (\<lambda>geomtemp.
        bind_error (NAI_tpoint_geo geomtemp gs) (\<lambda>geomresult.
        bind_error (as_tnpointinst geomresult) (\<lambda>result. Inr (Some result)))))"

definition NAI_tnpoint_geometry ::
  "(npoint Temporal \<Rightarrow> error + 'g Temporal) \<Rightarrow> ('g Temporal \<Rightarrow> GSERIALIZED \<Rightarrow> error + 'g TInstant) \<Rightarrow>
   ('g TInstant \<Rightarrow> error + npoint TInstant) \<Rightarrow> npoint Temporal \<Rightarrow> GSERIALIZED \<Rightarrow>
   error + npoint TInstant option" where
  "NAI_tnpoint_geometry as_tgeompoint NAI_tpoint_geo as_tnpointinst temp gs =
     (if gserialized_is_empty gs then Inr None
      else
        bind_error (as_tgeompoint temp) (\<lambda>geomtemp.
        bind_error (NAI_tpoint_geo geomtemp gs) (\<lambda>geomresult.
        bind_error (as_tnpointinst geomresult) (\<lambda>result. Inr (Some result)))))"

definition NAD_geometry_tnpoint ::
  "(npoint \<Rightarrow> npoint \<Rightarrow> bool) \<Rightarrow> (npoint TSequence \<Rightarrow> nsegment) \<Rightarrow>
   (npoint TSequenceSet \<Rightarrow> nsegment list) \<Rightarrow> (geom \<Rightarrow> GSERIALIZED \<Rightarrow> error + real) \<Rightarrow>
   GSERIALIZED \<Rightarrow> npoint Temporal \<Rightarrow> error + real option" where
  "NAD_geometry_tnpoint eq linear_positions positions distance gs temp =
     (if gserialized_is_empty gs then Inr None
      else
        let traj = tnpoint_geom eq linear_positions positions temp
        in bind_error (distance traj gs) (\<lambda>result. Inr (Some result)))"

definition NAD_tnpoint_geometry ::
  "(npoint \<Rightarrow> npoint \<Rightarrow> bool) \<Rightarrow> (npoint TSequence \<Rightarrow> nsegment) \<Rightarrow>
   (npoint TSequenceSet \<Rightarrow> nsegment list) \<Rightarrow> (geom \<Rightarrow> GSERIALIZED \<Rightarrow> error + real) \<Rightarrow>
   npoint Temporal \<Rightarrow> GSERIALIZED \<Rightarrow> error + real option" where
  "NAD_tnpoint_geometry eq linear_positions positions distance temp gs =
     (if gserialized_is_empty gs then Inr None
      else
        let traj = tnpoint_geom eq linear_positions positions temp
        in bind_error (distance traj gs) (\<lambda>result. Inr (Some result)))"

definition shortestline_geometry_tnpoint ::
  "(npoint \<Rightarrow> npoint \<Rightarrow> bool) \<Rightarrow> (npoint TSequence \<Rightarrow> nsegment) \<Rightarrow>
   (npoint TSequenceSet \<Rightarrow> nsegment list) \<Rightarrow> (geom \<Rightarrow> GSERIALIZED \<Rightarrow> error + 'l) \<Rightarrow>
   GSERIALIZED \<Rightarrow> npoint Temporal \<Rightarrow> error + 'l option" where
  "shortestline_geometry_tnpoint eq linear_positions positions shortestline2d gs temp =
     (if gserialized_is_empty gs then Inr None
      else
        let traj = tnpoint_geom eq linear_positions positions temp
        in bind_error (shortestline2d traj gs) (\<lambda>result. Inr (Some result)))"

definition shortestline_tnpoint_geometry ::
  "(npoint \<Rightarrow> npoint \<Rightarrow> bool) \<Rightarrow> (npoint TSequence \<Rightarrow> nsegment) \<Rightarrow>
   (npoint TSequenceSet \<Rightarrow> nsegment list) \<Rightarrow> (geom \<Rightarrow> GSERIALIZED \<Rightarrow> error + 'l) \<Rightarrow>
   npoint Temporal \<Rightarrow> GSERIALIZED \<Rightarrow> error + 'l option" where
  "shortestline_tnpoint_geometry eq linear_positions positions shortestline2d temp gs =
     (if gserialized_is_empty gs then Inr None
      else
        let traj = tnpoint_geom eq linear_positions positions temp
        in bind_error (shortestline2d traj gs) (\<lambda>result. Inr (Some result)))"

section \<open>Nearest approach distance of two temporal network points\<close>

text \<open>
  \<^verbatim>\<open>distance_tnpoint_tnpoint_internal\<close> and \<^verbatim>\<open>temporal_min_value_internal\<close> are defined
  elsewhere in the repository; in \<^verbatim>\<open>NAD_tnpoint_tnpoint\<close> they are the parameters \<open>distance\<close>
  and \<open>min_value\<close>.
\<close>

definition NAD_tnpoint_tnpoint ::
  "(npoint Temporal \<Rightarrow> npoint Temporal \<Rightarrow> real Temporal option) \<Rightarrow> (real Temporal \<Rightarrow> real) \<Rightarrow>
   npoint Temporal \<Rightarrow> npoint Temporal \<Rightarrow> real option" where
  "NAD_tnpoint_tnpoint distance min_value temp1 temp2 =
     (let dist = distance temp1 temp2
      in case dist of
           None \<Rightarrow> None
         | Some d \<Rightarrow> Some (min_value d))"

text \<open>
  Modelled from the spec: \<^verbatim>\<open>distance_tnpoint_tnpoint_internal\<close> is not in this file. By
  the specification, synchronization fails when the time domains of the two values are
  disjoint and this is propagated as an absent answer; otherwise the two values are
  synchronized and their pointwise distance is computed. The distance of two values that
  overlap in time is the parameter \<open>sync_distance\<close>.

  The time domain of a temporal value is a list of periods \<open>(lower, upper, lower_inc,
  upper_inc)\<close>: an instant is the closed period of its timestamp, a sequence the period
  between its first and last instants with its two flags. Two values overlap in time when
  a period of one and a period of the other have a timestamp in common.
\<close>

definition seq_period :: "'v TSequence \<Rightarrow> TimestampTz \<times> TimestampTz \<times> bool \<times> bool" where
  "seq_period seq =
     (tinstant_t (hd (seq_instants seq)), tinstant_t (last (seq_instants seq)),
      lower_inc seq, upper_inc seq)"

fun temporal_periods :: "'v Temporal \<Rightarrow> (TimestampTz \<times> TimestampTz \<times> bool \<times> bool) list" where
  "temporal_periods (INSTANT inst) = [(tinstant_t inst, tinstant_t inst, True, True)]"
| "temporal_periods (INSTANTSET ti) =
     map (\<lambda>inst. (tinstant_t inst, tinstant_t inst, True, True)) (ti_instants ti)"
| "temporal_periods (SEQUENCE seq) = [seq_period seq]"
| "temporal_periods (SEQUENCESET ts) = map seq_period (ts_sequences ts)"

fun overlaps_period ::
  "TimestampTz \<times> TimestampTz \<times> bool \<times> bool \<Rightarrow> TimestampTz \<times> TimestampTz \<times> bool \<times> bool \<Rightarrow> bool" where
  "overlaps_period (l1, u1, li1, ui1) (l2, u2, li2, ui2) \<longleftrightarrow>
     (l1 < u2 \<or> (l1 = u2 \<and> li1 \<and> ui2)) \<and> (l2 < u1 \<or> (l2 = u1 \<and> li2 \<and> ui1))"

definition time_overlaps :: "'v Temporal \<Rightarrow> 'w Temporal \<Rightarrow> bool" where
  "time_overlaps temp1 temp2 \<longleftrightarrow>
     list_ex (\<lambda>p. list_ex (overlaps_period p) (temporal_periods temp2)) (temporal_periods temp1)"

definition distance_tnpoint_tnpoint_internal ::
  "(npoint Temporal \<Rightarrow> npoint Temporal \<Rightarrow> real Temporal) \<Rightarrow>
   npoint Temporal \<Rightarrow> npoint Temporal \<Rightarrow> real Temporal option" where
  "distance_tnpoint_tnpoint_internal sync_distance temp1 temp2 =
     (if time_overlaps temp1 temp2 then Some (sync_distance temp1 temp2) else None)"

section \<open>Azimuth\<close>

text \<open>
  The four functions of the geometry kernel that \<^verbatim>\<open>tnpointseq_azimuth1\<close> calls on a
  trajectory, as one record of parameters; \<open>'p\<close> is the type of a vertex.
\<close>

record 'p lwgeom =
  LWGEOM_numpoints_linestring :: "geom \<Rightarrow> int"
  LWGEOM_pointn_linestring :: "geom \<Rightarrow> int \<Rightarrow> 'p"
  LWGEOM_line_locate_point :: "geom \<Rightarrow> 'p \<Rightarrow> real"
  LWGEOM_azimuth :: "'p \<Rightarrow> 'p \<Rightarrow> real"

text \<open>
  The loop of \<^verbatim>\<open>tnpointseq_azimuth1\<close> over the vertices: \<open>n\<close> iterations are left, \<open>i\<close> is
  the loop index, \<open>vertex1\<close> the previous vertex and \<open>time\<close> the timestamp of the next
  instant. The next timestamp is computed as the C expression is: the difference of the two
  timestamps as a 64-bit integer, its cast to a double, the product with the fraction
  rounded to a double, the cast of that double to a 64-bit integer (defined by C for a
  double of absolute value below \<open>2 ^ 63\<close>), and the sum as a 64-bit integer.
\<close>

fun tnpointseq_azimuth1_loop ::
  "'p lwgeom \<Rightarrow> geom \<Rightarrow> npoint TInstant \<Rightarrow> npoint TInstant \<Rightarrow> nat \<Rightarrow> int \<Rightarrow> 'p \<Rightarrow>
   TimestampTz \<Rightarrow> real TInstant list" where
  "tnpointseq_azimuth1_loop K traj inst1 inst2 0 i vertex1 time = []"
| "tnpointseq_azimuth1_loop K traj inst1 inst2 (Suc n) i vertex1 time =
     (let vertex2 = LWGEOM_pointn_linestring K traj (i + 2);
          fraction = LWGEOM_line_locate_point K traj vertex2;
          azimuth = LWGEOM_azimuth K vertex1 vertex2;
          time1 = int64 (tinstant_t inst1 +
            cast_long (double_round
              (double_of_int64 (int64 (tinstant_t inst2 - tinstant_t inst1)) * fraction)))
      in tinstant_make azimuth time #
         tnpointseq_azimuth1_loop K traj inst1 inst2 n (i + 1) vertex2 time1)"

text \<open>
  \<^verbatim>\<open>tnpointseq_azimuth1\<close> returns the instants of one segment; \<^verbatim>\<open>*count\<close>, which is
  \<^verbatim>\<open>countVertices - 1\<close>, is the length of the list. The first vertex is read before the
  loop. A trajectory of a segment that is not constant is a line and has vertices; were the
  kernel to count none, there would be no first vertex to read and \<^verbatim>\<open>*count\<close> would be
  negative, and the model makes that call an error.
\<close>

definition tnpointseq_azimuth1 ::
  "'p lwgeom \<Rightarrow> npoint TInstant \<Rightarrow> npoint TInstant \<Rightarrow> error + real TInstant list" where
  "tnpointseq_azimuth1 K inst1 inst2 =
     (let np1 = tinstant_value inst1;
          np2 = tinstant_value inst2
      in if pos np1 = pos np2 then Inr []
         else
           bind_error (tnpointseq_trajectory1 inst1 inst2) (\<lambda>traj.
             let countVertices = LWGEOM_numpoints_linestring K traj
             in if countVertices < 1 then Inl (ERRCODE_INTERNAL_ERROR ''LWGEOM_pointn_linestring'')
                else
                  let vertex1 = LWGEOM_pointn_linestring K traj 1;
                      time = tinstant_t inst1
                  in Inr (tnpointseq_azimuth1_loop K traj inst1 inst2
                            (nat (countVertices - 1)) 0 vertex1 time)))"

text \<open>
  The sequence that \<^verbatim>\<open>tnpointseq_azimuth2\<close> assembles, in its loop and after it, from the
  arrays \<^verbatim>\<open>instants[m] .. instants[i - 1]\<close>: their instants in order, then the closing
  instant with the last value at the timestamp of \<^verbatim>\<open>inst1\<close>; stepwise, with the upper bound
  included and \<^verbatim>\<open>normalize\<close> set.
\<close>

definition azimuth2_assemble ::
  "(bool \<Rightarrow> real TInstant list \<Rightarrow> real TInstant list) \<Rightarrow> real TInstant list list \<Rightarrow>
   nat \<Rightarrow> nat \<Rightarrow> npoint TInstant \<Rightarrow> bool \<Rightarrow> real TSequence" where
  "azimuth2_assemble normi instants m i inst1 lower_inc1 =
     (let allinstants = concat (map (\<lambda>j. instants ! j) [m..<i]);
          n = length allinstants;
          last_value = tinstant_value (allinstants ! (n - 1))
      in tsequence_make normi (allinstants @ [tinstant_make last_value (tinstant_t inst1)])
           lower_inc1 True STEP True)"

text \<open>
  The loop of \<^verbatim>\<open>tnpointseq_azimuth2\<close> over the segments, given the instants \<^verbatim>\<open>inst2\<close> still
  to read. The state is the arrays \<^verbatim>\<open>instants[0 .. i - 1]\<close> made so far (\<^verbatim>\<open>countinsts[j]\<close> is
  the length of \<^verbatim>\<open>instants[j]\<close> and \<open>i\<close> the number of arrays), \<^verbatim>\<open>totalinsts\<close>, the sequences
  \<^verbatim>\<open>result[0 .. l - 1]\<close>, \<^verbatim>\<open>m\<close>, \<^verbatim>\<open>inst1\<close> and \<^verbatim>\<open>lower_inc\<close>.
\<close>

fun tnpointseq_azimuth2_loop ::
  "'p lwgeom \<Rightarrow> (bool \<Rightarrow> real TInstant list \<Rightarrow> real TInstant list) \<Rightarrow> npoint TInstant list \<Rightarrow>
   real TInstant list list \<Rightarrow> nat \<Rightarrow> real TSequence list \<Rightarrow> nat \<Rightarrow> npoint TInstant \<Rightarrow> bool \<Rightarrow>
   error + (real TInstant list list \<times> nat \<times> real TSequence list \<times> nat \<times> npoint TInstant \<times> bool)" where
  "tnpointseq_azimuth2_loop K normi [] instants totalinsts result m inst1 lower_inc1 =
     Inr (instants, totalinsts, result, m, inst1, lower_inc1)"
| "tnpointseq_azimuth2_loop K normi (inst2 # insts) instants totalinsts result m inst1 lower_inc1 =
     bind_error (tnpointseq_azimuth1 K inst1 inst2) (\<lambda>segment.
       let i = length instants;
           instants1 = instants @ [segment]
       in if length segment = 0 then
            if totalinsts \<noteq> 0 then
              tnpointseq_azimuth2_loop K normi insts instants1 0
                (result @ [azimuth2_assemble normi instants1 m i inst1 lower_inc1]) i inst2 True
            else
              tnpointseq_azimuth2_loop K normi insts instants1 totalinsts result m inst2 True
          else
            tnpointseq_azimuth2_loop K normi insts instants1 (totalinsts + length segment)
              result m inst2 True)"

definition tnpointseq_azimuth2 ::
  "'p lwgeom \<Rightarrow> (bool \<Rightarrow> real TInstant list \<Rightarrow> real TInstant list) \<Rightarrow> npoint TSequence \<Rightarrow>
   error + real TSequence list" where
  "tnpointseq_azimuth2 K normi seq =
     (if seq_count seq = 1 then Inr []
      else
        bind_error
          (tnpointseq_azimuth2_loop K normi (drop 1 (seq_instants seq)) [] 0 [] 0
             (tsequence_inst_n seq 0) (lower_inc seq))
          (\<lambda>(instants, totalinsts, result, m, inst1, lower_inc1).
             if totalinsts \<noteq> 0 then
               Inr (result @
                 [azimuth2_assemble normi instants m (seq_count seq - 1) inst1 lower_inc1])
             else Inr result))"

definition tnpointseq_azimuth ::
  "'p lwgeom \<Rightarrow> (bool \<Rightarrow> real TInstant list \<Rightarrow> real TInstant list) \<Rightarrow>
   (real TSequence list \<Rightarrow> real TSequence list) \<Rightarrow> npoint TSequence \<Rightarrow>
   error + real TSequenceSet option" where
  "tnpointseq_azimuth K normi norms seq =
     bind_error (tnpointseq_azimuth2 K normi seq) (\<lambda>sequences.
       if length sequences = 0 then Inr None
       else Inr (Some (tsequenceset_make norms sequences True)))"

fun tnpoints_azimuth_loop ::
  "'p lwgeom \<Rightarrow> (bool \<Rightarrow> real TInstant list \<Rightarrow> real TInstant list) \<Rightarrow> npoint TSequence list \<Rightarrow>
   real TSequence list \<Rightarrow> error + real TSequence list" where
  "tnpoints_azimuth_loop K normi [] sequences = Inr sequences"
| "tnpoints_azimuth_loop K normi (seq # seqs) sequences =
     bind_error (tnpointseq_azimuth2 K normi seq) (\<lambda>step.
       tnpoints_azimuth_loop K normi seqs (sequences @ step))"

definition tnpoints_azimuth ::
  "'p lwgeom \<Rightarrow> (bool \<Rightarrow> real TInstant list \<Rightarrow> real TInstant list) \<Rightarrow>
   (real TSequence list \<Rightarrow> real TSequence list) \<Rightarrow> npoint TSequenceSet \<Rightarrow>
   error + real TSequenceSet option" where
  "tnpoints_azimuth K normi norms ts =
     (if length (ts_sequences ts) = 1 then tnpointseq_azimuth K normi norms (ts_sequences ts ! 0)
      else
        bind_error (tnpoints_azimuth_loop K normi (ts_sequences ts) []) (\<lambda>sequences.
          if length sequences = 0 then Inr None
          else Inr (Some (tsequenceset_make norms sequences STEP))))"

fun tnpoint_azimuth ::
  "'p lwgeom \<Rightarrow> (bool \<Rightarrow> real TInstant list \<Rightarrow> real TInstant list) \<Rightarrow>
   (real TSequence list \<Rightarrow> real TSequence list) \<Rightarrow> npoint Temporal \<Rightarrow>
   error + real Temporal option" where
  "tnpoint_azimuth K normi norms (INSTANT inst) = Inr None"
| "tnpoint_azimuth K normi norms (INSTANTSET ti) = Inr None"
| "tnpoint_azimuth K normi norms (SEQUENCE seq) =
     (if \<not> seq_linear seq then Inr None
      else bind_error (tnpointseq_azimuth K normi norms seq)
             (\<lambda>result. Inr (map_option SEQUENCESET result)))"
| "tnpoint_azimuth K normi norms (SEQUENCESET ts) =
     (if \<not> ts_linear ts then Inr None
      else bind_error (tnpoints_azimuth K normi norms ts)
             (\<lambda>result. Inr (map_option SEQUENCESET result)))"

text \<open>
  The claim about the azimuth, in its own words, for comparison with the code. The
  segments of a sequence are given in order, each with its start time and its azimuth
  instants. \<open>acc\<close> holds the instants accumulated since the last split. A segment without
  instants is a split point: the accumulated instants, if any, are closed into one sequence
  by a closing instant that repeats the last value at the start time of that segment, and
  the accumulation starts again. What is accumulated at the end is closed at the time of the
  last instant of the input.
\<close>

definition azimuth_close ::
  "(bool \<Rightarrow> real TInstant list \<Rightarrow> real TInstant list) \<Rightarrow> real TInstant list \<Rightarrow> TimestampTz \<Rightarrow>
   real TSequence" where
  "azimuth_close normi acc tm =
     tsequence_make normi (acc @ [tinstant_make (tinstant_value (last acc)) tm])
       True True False True"

fun azimuth_runs ::
  "(bool \<Rightarrow> real TInstant list \<Rightarrow> real TInstant list) \<Rightarrow> (TimestampTz \<times> real TInstant list) list \<Rightarrow>
   real TInstant list \<Rightarrow> TimestampTz \<Rightarrow> real TSequence list" where
  "azimuth_runs normi [] acc tend = (if acc = [] then [] else [azimuth_close normi acc tend])"
| "azimuth_runs normi ((tm, segment) # segments) acc tend =
     (if segment = [] then
        (if acc = [] then azimuth_runs normi segments [] tend
         else azimuth_close normi acc tm # azimuth_runs normi segments [] tend)
      else azimuth_runs normi segments (acc @ segment) tend)"

text \<open>The azimuth instants of all the segments of a list of instants, or the first error.\<close>

fun azimuth_segments ::
  "'p lwgeom \<Rightarrow> npoint TInstant list \<Rightarrow> error + (TimestampTz \<times> real TInstant list) list" where
  "azimuth_segments K (inst1 # inst2 # insts) =
     bind_error (tnpointseq_azimuth1 K inst1 inst2) (\<lambda>segment.
       bind_error (azimuth_segments K (inst2 # insts)) (\<lambda>segments.
         Inr ((tinstant_t inst1, segment) # segments)))"
| "azimuth_segments K insts = Inr []"

section \<open>Properties of length\<close>

lemma tnpointseq_length_loop_sum:
  "tnpointseq_length_loop insts (tinstant_value inst0) fraction =
     fraction + sum_abs_delta (inst0 # insts)"
proof (induction insts arbitrary: inst0 fraction)
  case Nil
  show ?case by (simp add: sum_abs_delta_def)
next
  case (Cons inst insts)
  have "sum_abs_delta (inst0 # inst # insts) =
        \<bar>pos (tinstant_value inst) - pos (tinstant_value inst0)\<bar> + sum_abs_delta (inst # insts)"
    unfolding sum_abs_delta_def
    by (simp add: sum.atLeast0_lessThan_Suc_shift del: sum.lessThan_Suc sum.op_ivl_Suc)
  with Cons.IH [of inst "fraction + \<bar>pos (tinstant_value inst) - pos (tinstant_value inst0)\<bar>"]
  show ?case by (simp add: Let_def)
qed

lemma tnpoints_length_loop_sum:
  "tnpoints_length_loop route_length seqs result =
     result + sum_list (map (tnpointseq_length route_length) seqs)"
  by (induction seqs arbitrary: result) simp_all

lemma tnpointseq_length_sum:
  assumes "seq_instants seq \<noteq> []"
  shows "tnpointseq_length route_length seq =
           route_length (rid (tinstant_value (seq_instants seq ! 0))) * sum_abs_delta (seq_instants seq)"
proof (cases "seq_instants seq")
  case Nil
  with assms show ?thesis by simp
next
  case (Cons inst0 insts)
  show ?thesis
  proof (cases insts)
    case Nil
    with Cons show ?thesis
      by (simp add: tnpointseq_length_def seq_count_def sum_abs_delta_def)
  next
    case (Cons inst1 rest)
    with \<open>seq_instants seq = inst0 # insts\<close> show ?thesis
      using tnpointseq_length_loop_sum [of insts inst0 0]
      by (simp add: tnpointseq_length_def seq_count_def tsequence_inst_n_def Let_def)
  qed
qed

text \<open>
  Claim C8. \<^verbatim>\<open>tnpoint_length\<close> is zero for an instant, an instant set and the stepwise
  sequence and sequence set; for a linear sequence it is the length of the route of its
  first instant times the sum of the absolute position differences of consecutive
  instants; for a linear sequence set it is the sum of these per-sequence lengths.
\<close>

theorem tnpoint_length_cases:
  assumes "valid_temporal temp"
  shows "tnpoint_length route_length temp =
     (case temp of
        INSTANT inst \<Rightarrow> 0
      | INSTANTSET ti \<Rightarrow> 0
      | SEQUENCE seq \<Rightarrow>
          if seq_linear seq
          then route_length (rid (tinstant_value (seq_instants seq ! 0))) *
                 sum_abs_delta (seq_instants seq)
          else 0
      | SEQUENCESET ts \<Rightarrow>
          if ts_linear ts
          then sum_list (map (\<lambda>seq. route_length (rid (tinstant_value (seq_instants seq ! 0))) *
                 sum_abs_delta (seq_instants seq)) (ts_sequences ts))
          else 0)"
proof (cases temp)
  case (SEQUENCE seq)
  with assms show ?thesis by (simp add: tnpointseq_length_sum)
next
  case (SEQUENCESET ts)
  with assms have ne: "\<forall>seq \<in> set (ts_sequences ts). seq_instants seq \<noteq> []"
    by (simp add: list_all_iff)
  have eq: "sum_list (map (tnpointseq_length route_length) (ts_sequences ts)) =
        sum_list (map (\<lambda>seq. route_length (rid (tinstant_value (seq_instants seq ! 0))) *
               sum_abs_delta (seq_instants seq)) (ts_sequences ts))"
    using ne by (intro arg_cong [where f = sum_list] map_cong) (simp_all add: tnpointseq_length_sum)
  from SEQUENCESET show ?thesis
    by (simp add: tnpoints_length_def tnpoints_length_loop_sum eq)
qed simp_all

text \<open>
  The example of the specification: route 1 has length 100 and the linear sequence moves
  from position 0 at time 0 to position 0.5 ten seconds later; its length is 50.
\<close>

theorem tnpoint_length_cases_witness:
  "valid_temporal (SEQUENCE \<lparr>seq_instants =
       [tinstant_make \<lparr>rid = 1, pos = 0\<rparr> 0, tinstant_make \<lparr>rid = 1, pos = 1/2\<rparr> 10000000],
       lower_inc = True, upper_inc = True, seq_linear = True\<rparr>) \<and>
   tnpoint_length (\<lambda>r. 100) (SEQUENCE \<lparr>seq_instants =
       [tinstant_make \<lparr>rid = 1, pos = 0\<rparr> 0, tinstant_make \<lparr>rid = 1, pos = 1/2\<rparr> 10000000],
       lower_inc = True, upper_inc = True, seq_linear = True\<rparr>) = 50"
  using tnpoint_length_cases [of "SEQUENCE \<lparr>seq_instants =
       [tinstant_make \<lparr>rid = 1, pos = 0\<rparr> 0, tinstant_make \<lparr>rid = 1, pos = 1/2\<rparr> 10000000],
       lower_inc = True, upper_inc = True, seq_linear = True\<rparr>" "\<lambda>r. 100"]
  by (simp add: sum_abs_delta_def tinstant_make_def)

section \<open>Properties of speed and of cumulative length\<close>


lemma tnpointseq_speed_loop_length:
  "insts \<noteq> [] \<or> inst2 \<noteq> None \<Longrightarrow>
   length (tnpointseq_speed_loop rlength insts inst1 np1 inst2 speed) = Suc (length insts)"
  by (induction insts arbitrary: inst1 np1 inst2 speed) (auto simp: Let_def)

lemma tnpointseq_speed_loop_nth:
  "i < length insts \<Longrightarrow>
   tnpointseq_speed_loop rlength insts inst1 (tinstant_value inst1) inst2 speed ! i =
     tinstant_make
       (double_divide
          (\<bar>pos (tinstant_value ((inst1 # insts) ! (i + 1))) -
            pos (tinstant_value ((inst1 # insts) ! i))\<bar> * rlength)
          ((double_of_int64 (tinstant_t ((inst1 # insts) ! (i + 1))) -
            double_of_int64 (tinstant_t ((inst1 # insts) ! i))) / 1000000))
       (tinstant_t ((inst1 # insts) ! i))"
proof (induction insts arbitrary: i inst1 inst2 speed)
  case Nil
  then show ?case by simp
next
  case (Cons inst insts)
  show ?case
  proof (cases i)
    case 0
    then show ?thesis by (simp add: Let_def)
  next
    case (Suc j)
    with Cons.prems have "j < length insts" by simp
    from Cons.IH [OF this, of inst] Suc show ?thesis by (simp add: Let_def)
  qed
qed

lemma tnpointseq_speed_loop_last:
  "tnpointseq_speed_loop rlength insts inst1 np1 (Some inst2) speed ! length insts =
     tinstant_make
       (if insts = [] then speed
        else tinstant_value (tnpointseq_speed_loop rlength insts inst1 np1 (Some inst2) speed ! (length insts - 1)))
       (tinstant_t (last (inst2 # insts)))"
proof (induction insts arbitrary: inst1 np1 inst2 speed)
  case Nil
  show ?case by simp
next
  case (Cons inst insts)
  show ?case
    using Cons.IH [of inst "tinstant_value inst" inst]
    apply (simp add: Let_def)
    apply (cases insts)
     apply (simp_all add: tinstant_make_def Let_def)
    done
qed

lemma double_of_int64_exact: "\<bar>t\<bar> \<le> 2 ^ 53 \<Longrightarrow> double_of_int64 t = real_of_int t"
  by (simp add: double_of_int64_def)

lemma double_of_int64_above: "double_of_int64 (2 ^ 53 + 1) = 2 ^ 53"
proof -
  have "bitlen (2 ^ 53 + 1) = 54"
    using bitlen_twopow_add_eq [of 1 53] by simp
  then have "bitlen \<bar>9007199254740993\<bar> = 54" by simp
  then show ?thesis
    by (simp add: double_of_int64_def Let_def)
qed

text \<open>
  Claim C5, as the code has it. For a linear sequence of \<open>n \<ge> 2\<close> instants
  \<^verbatim>\<open>tnpointseq_speed\<close> hands \<open>n\<close> instants to \<^verbatim>\<open>tsequence_make_free\<close>, with the flags of the
  input, the interpolation \<^verbatim>\<open>STEP\<close> and \<^verbatim>\<open>normalize\<close> set, and returns the sequence made of
  them; that sequence holds these \<open>n\<close> instants when the normalisation leaves them as they
  are. Instant \<open>i\<close> has the timestamp of the input's instant \<open>i\<close>; for \<open>i < n - 1\<close> its value is
  the quotient of the absolute position difference between the instants \<open>i\<close> and \<open>i + 1\<close>
  times the route length and the difference, in seconds, of the two timestamps cast to
  doubles; the value of the last instant is the value of the instant before it. When the
  timestamps increase and are at most \<open>2 ^ 53\<close> in absolute value, the casts are exact and
  the value is the route length times the absolute position difference divided by the time
  difference in seconds, a positive number.
\<close>

theorem tnpointseq_speed_linear:
  assumes lin: "seq_linear seq"
    and cnt: "2 \<le> length (seq_instants seq)"
  shows "\<exists>insts.
     tnpointseq_speed route_length normi seq =
       Some (tsequence_make normi insts (lower_inc seq) (upper_inc seq) False True) \<and>
     (normi False insts = insts \<longrightarrow>
        tnpointseq_speed route_length normi seq =
          Some \<lparr>seq_instants = insts, lower_inc = lower_inc seq, upper_inc = upper_inc seq,
                seq_linear = False\<rparr>) \<and>
     length insts = length (seq_instants seq) \<and>
     (\<forall>i < length (seq_instants seq).
        tinstant_t (insts ! i) = tinstant_t (seq_instants seq ! i)) \<and>
     (\<forall>i < length (seq_instants seq) - 1.
        tinstant_value (insts ! i) =
          double_divide
            (\<bar>pos (tinstant_value (seq_instants seq ! (i + 1))) -
              pos (tinstant_value (seq_instants seq ! i))\<bar> *
             route_length (rid (tinstant_value (seq_instants seq ! 0))))
            ((double_of_int64 (tinstant_t (seq_instants seq ! (i + 1))) -
              double_of_int64 (tinstant_t (seq_instants seq ! i))) / 1000000)) \<and>
     (sorted_wrt (<) (map tinstant_t (seq_instants seq)) \<and>
      list_all (\<lambda>inst. \<bar>tinstant_t inst\<bar> \<le> 2 ^ 53) (seq_instants seq) \<longrightarrow>
        (\<forall>i < length (seq_instants seq) - 1.
           tinstant_t (seq_instants seq ! i) < tinstant_t (seq_instants seq ! (i + 1)) \<and>
           tinstant_value (insts ! i) =
             Float8 (route_length (rid (tinstant_value (seq_instants seq ! 0))) *
               \<bar>pos (tinstant_value (seq_instants seq ! (i + 1))) -
                pos (tinstant_value (seq_instants seq ! i))\<bar> /
               (real_of_int (tinstant_t (seq_instants seq ! (i + 1)) -
                  tinstant_t (seq_instants seq ! i)) / 1000000)))) \<and>
     tinstant_value (insts ! (length (seq_instants seq) - 1)) =
       tinstant_value (insts ! (length (seq_instants seq) - 2))"
proof -
  from cnt obtain inst1 rest where S: "seq_instants seq = inst1 # rest" and rest: "rest \<noteq> []"
    by (auto simp: numeral_2_eq_2 Suc_le_length_iff)
  define rlength where "rlength = route_length (rid (tinstant_value inst1))"
  define insts where
    "insts = tnpointseq_speed_loop rlength rest inst1 (tinstant_value inst1) None (Float8 0)"
  from rest obtain inst rest1 where R: "rest = inst # rest1" by (cases rest) auto
  define speed1 where "speed1 = double_divide
      (\<bar>pos (tinstant_value inst) - pos (tinstant_value inst1)\<bar> * rlength)
      ((double_of_int64 (tinstant_t inst) - double_of_int64 (tinstant_t inst1)) / 1000000)"
  have unroll: "insts = tinstant_make speed1 (tinstant_t inst1) #
      tnpointseq_speed_loop rlength rest1 inst (tinstant_value inst) (Some inst) speed1"
    by (simp add: insts_def R Let_def speed1_def)
  have res: "tnpointseq_speed route_length normi seq =
       Some (tsequence_make normi insts (lower_inc seq) (upper_inc seq) False True)"
    using lin S rest
    by (simp add: tnpointseq_speed_def seq_count_def tsequence_inst_n_def Let_def STEP_def
        insts_def rlength_def)
  have kept: "normi False insts = insts \<longrightarrow>
        tnpointseq_speed route_length normi seq =
          Some \<lparr>seq_instants = insts, lower_inc = lower_inc seq, upper_inc = upper_inc seq,
                seq_linear = False\<rparr>"
    by (simp add: res tsequence_make_def)
  have len: "length insts = length (seq_instants seq)"
    using rest by (simp add: insts_def S tnpointseq_speed_loop_length)
  have nth: "insts ! i = tinstant_make
       (double_divide
          (\<bar>pos (tinstant_value (seq_instants seq ! (i + 1))) -
            pos (tinstant_value (seq_instants seq ! i))\<bar> * rlength)
          ((double_of_int64 (tinstant_t (seq_instants seq ! (i + 1))) -
            double_of_int64 (tinstant_t (seq_instants seq ! i))) / 1000000))
       (tinstant_t (seq_instants seq ! i))" if "i < length rest" for i
    using tnpointseq_speed_loop_nth [OF that, of rlength inst1 None "Float8 0"]
    by (simp add: insts_def S)
  have last_eq: "insts ! length rest = tinstant_make
       (tinstant_value (insts ! (length rest - 1))) (tinstant_t (last rest))"
    using tnpointseq_speed_loop_last [of rlength rest1 inst "tinstant_value inst" inst speed1]
    by (cases rest1) (simp_all add: unroll R tinstant_make_def)
  have times: "tinstant_t (insts ! i) = tinstant_t (seq_instants seq ! i)"
    if "i < length (seq_instants seq)" for i
  proof (cases "i < length rest")
    case True
    from nth [OF this] show ?thesis by (simp add: tinstant_make_def)
  next
    case False
    with that have i: "i = length rest" by (simp add: S)
    with last_eq rest show ?thesis by (simp add: S tinstant_make_def last_conv_nth)
  qed
  have vals: "tinstant_value (insts ! i) =
          double_divide
            (\<bar>pos (tinstant_value (seq_instants seq ! (i + 1))) -
              pos (tinstant_value (seq_instants seq ! i))\<bar> *
             route_length (rid (tinstant_value (seq_instants seq ! 0))))
            ((double_of_int64 (tinstant_t (seq_instants seq ! (i + 1))) -
              double_of_int64 (tinstant_t (seq_instants seq ! i))) / 1000000)"
    if "i < length (seq_instants seq) - 1" for i
  proof -
    from that have "i < length rest" by (simp add: S)
    from nth [OF this] show ?thesis
      by (simp add: tinstant_make_def rlength_def S)
  qed
  have exact: "tinstant_t (seq_instants seq ! i) < tinstant_t (seq_instants seq ! (i + 1)) \<and>
           tinstant_value (insts ! i) =
             Float8 (route_length (rid (tinstant_value (seq_instants seq ! 0))) *
               \<bar>pos (tinstant_value (seq_instants seq ! (i + 1))) -
                pos (tinstant_value (seq_instants seq ! i))\<bar> /
               (real_of_int (tinstant_t (seq_instants seq ! (i + 1)) -
                  tinstant_t (seq_instants seq ! i)) / 1000000))"
    if incr: "sorted_wrt (<) (map tinstant_t (seq_instants seq))"
      and range: "list_all (\<lambda>inst. \<bar>tinstant_t inst\<bar> \<le> 2 ^ 53) (seq_instants seq)"
      and i: "i < length (seq_instants seq) - 1" for i
  proof -
    have lt: "tinstant_t (seq_instants seq ! i) < tinstant_t (seq_instants seq ! (i + 1))"
      using incr i by (simp add: sorted_wrt_iff_nth_less)
    have r1: "\<bar>tinstant_t (seq_instants seq ! i)\<bar> \<le> 2 ^ 53"
      and r2: "\<bar>tinstant_t (seq_instants seq ! (i + 1))\<bar> \<le> 2 ^ 53"
      using range i by (simp_all add: list_all_length)
    have "double_of_int64 (tinstant_t (seq_instants seq ! (i + 1))) -
          double_of_int64 (tinstant_t (seq_instants seq ! i)) =
          real_of_int (tinstant_t (seq_instants seq ! (i + 1)) - tinstant_t (seq_instants seq ! i))"
      by (simp only: double_of_int64_exact [OF r1] double_of_int64_exact [OF r2] of_int_diff)
    moreover have "real_of_int (tinstant_t (seq_instants seq ! (i + 1)) -
        tinstant_t (seq_instants seq ! i)) / 1000000 \<noteq> 0"
      using lt by simp
    ultimately show ?thesis
      using lt vals [OF i] by (simp add: double_divide_def mult.commute)
  qed
  have lastv: "tinstant_value (insts ! (length (seq_instants seq) - 1)) =
       tinstant_value (insts ! (length (seq_instants seq) - 2))"
    using last_eq by (simp add: S tinstant_make_def)
  from res kept len times vals exact lastv show ?thesis by blast
qed

text \<open>
  The example of the specification: 50 units in 10 seconds give two instants of speed 5.
\<close>

theorem tnpointseq_speed_linear_witness:
  "2 \<le> length [tinstant_make \<lparr>rid = 1, pos = 0\<rparr> 0, tinstant_make \<lparr>rid = 1, pos = 1/2\<rparr> 10000000] \<and>
   sorted_wrt (<) (map tinstant_t
     [tinstant_make \<lparr>rid = 1, pos = 0\<rparr> 0, tinstant_make \<lparr>rid = 1, pos = 1/2\<rparr> 10000000]) \<and>
   list_all (\<lambda>inst. \<bar>tinstant_t inst\<bar> \<le> 2 ^ 53)
     [tinstant_make \<lparr>rid = 1, pos = 0\<rparr> 0, tinstant_make \<lparr>rid = 1, pos = 1/2\<rparr> 10000000] \<and>
   seq_linear \<lparr>seq_instants =
       [tinstant_make \<lparr>rid = 1, pos = 0\<rparr> 0, tinstant_make \<lparr>rid = 1, pos = 1/2\<rparr> 10000000],
       lower_inc = True, upper_inc = True, seq_linear = True\<rparr> \<and>
   (\<lambda>l xs. xs) False [tinstant_make (Float8 5) 0, tinstant_make (Float8 5) 10000000] =
     [tinstant_make (Float8 5) 0, tinstant_make (Float8 5) 10000000] \<and>
   tnpointseq_speed (\<lambda>r. 100) (\<lambda>l xs. xs) \<lparr>seq_instants =
       [tinstant_make \<lparr>rid = 1, pos = 0\<rparr> 0, tinstant_make \<lparr>rid = 1, pos = 1/2\<rparr> 10000000],
       lower_inc = True, upper_inc = True, seq_linear = True\<rparr> =
     Some \<lparr>seq_instants = [tinstant_make (Float8 5) 0, tinstant_make (Float8 5) 10000000],
       lower_inc = True, upper_inc = True, seq_linear = False\<rparr>"
  using tnpointseq_speed_linear [of "\<lparr>seq_instants =
       [tinstant_make \<lparr>rid = 1, pos = 0\<rparr> 0, tinstant_make \<lparr>rid = 1, pos = 1/2\<rparr> 10000000],
       lower_inc = True, upper_inc = True, seq_linear = True\<rparr>" "\<lambda>r. 100" "\<lambda>l xs. xs"]
  by (simp add: tnpointseq_speed_def seq_count_def tsequence_inst_n_def tsequence_make_def
      STEP_def tinstant_make_def Let_def double_divide_def double_of_int64_def)

text \<open>
  Claim C5 as stated fails. A sequence of three instants that moves at the constant speed 5
  gives three instants of value 5 to the constructor; a constructor that, asked to normalise
  a stepwise sequence, drops an instant between the first and the last whose value is the
  value of the instant before it returns two instants, at the first and the last timestamp.
  And between the timestamps \<open>2 ^ 53\<close> and \<open>2 ^ 53 + 1\<close>, which are the same double, the speed
  is infinite whatever the distance.
\<close>

theorem tnpointseq_speed_not_n_instants:
  "tnpointseq_speed (\<lambda>r. 100)
     (\<lambda>linear xs. if linear then xs
        else map (\<lambda>i. xs ! i)
          (filter (\<lambda>i. i = 0 \<or> i = length xs - 1 \<or>
             tinstant_value (xs ! i) \<noteq> tinstant_value (xs ! (i - 1))) [0..<length xs]))
     \<lparr>seq_instants =
        [tinstant_make \<lparr>rid = 1, pos = 0\<rparr> 0, tinstant_make \<lparr>rid = 1, pos = 1/2\<rparr> 10000000,
         tinstant_make \<lparr>rid = 1, pos = 1\<rparr> 20000000],
      lower_inc = True, upper_inc = True, seq_linear = True\<rparr> =
     Some \<lparr>seq_instants = [tinstant_make (Float8 5) 0, tinstant_make (Float8 5) 20000000],
       lower_inc = True, upper_inc = True, seq_linear = False\<rparr> \<and>
   tnpointseq_speed (\<lambda>r. 100) (\<lambda>l xs. xs)
     \<lparr>seq_instants =
        [tinstant_make \<lparr>rid = 1, pos = 0\<rparr> (2 ^ 53), tinstant_make \<lparr>rid = 1, pos = 1/2\<rparr> (2 ^ 53 + 1)],
      lower_inc = True, upper_inc = True, seq_linear = True\<rparr> =
     Some \<lparr>seq_instants =
        [tinstant_make Float8_infinity (2 ^ 53), tinstant_make Float8_infinity (2 ^ 53 + 1)],
       lower_inc = True, upper_inc = True, seq_linear = False\<rparr>"
proof -
  have a: "double_of_int64 9007199254740993 = 9007199254740992"
    using double_of_int64_above by simp
  have b: "double_of_int64 9007199254740992 = 9007199254740992"
    by (simp add: double_of_int64_def)
  show ?thesis
    by (simp add: tnpointseq_speed_def seq_count_def tsequence_inst_n_def tsequence_make_def
        STEP_def tinstant_make_def Let_def double_divide_def a b)
      (simp add: double_of_int64_def)
qed

lemma tnpoints_speed_loop_map_filter:
  "tnpoints_speed_loop route_length normi seqs =
     List.map_filter (tnpointseq_speed route_length normi) seqs"
  by (induction seqs) (simp_all add: List.map_filter_simps split: option.splits)

lemma tnpointseq_speed_None_iff:
  "seq_instants seq \<noteq> [] \<Longrightarrow>
   tnpointseq_speed route_length normi seq = None \<longleftrightarrow> length (seq_instants seq) = 1"
  by (simp add: tnpointseq_speed_def seq_count_def Let_def)

lemma map_filter_Nil_iff:
  "List.map_filter f xs = [] \<longleftrightarrow> (\<forall>x \<in> set xs. f x = None)"
  by (induction xs) (auto simp: List.map_filter_simps split: option.splits)

text \<open>
  Claim C2, as the code has it. \<^verbatim>\<open>tnpoint_speed\<close> returns \<^verbatim>\<open>NULL\<close> for a sequence exactly
  when it has one instant, whatever its interpolation, and for a sequence set exactly when
  all its sequences have one instant. For an instant and an instant set it returns a zero
  at each timestamp of the input (\<^verbatim>\<open>tnpointinst_set_zero\<close>, \<^verbatim>\<open>tnpointi_set_zero\<close>); for a
  stepwise sequence of two or more instants it returns the sequence made of a zero at each
  timestamp; for a linear sequence of two or more instants it returns the sequence made of
  the instants of the loop of \<^verbatim>\<open>tnpointseq_speed\<close>; a sequence set with a sequence of two or
  more instants gives the set of the sequences that \<^verbatim>\<open>tnpointseq_speed\<close> returns for its
  components.
\<close>

theorem tnpoint_speed_absent_cases:
  "tnpoint_speed route_length normi norms (INSTANT inst) =
     Some (INSTANT (tinstant_make (Float8 0) (tinstant_t inst))) \<and>
   tnpoint_speed route_length normi norms (INSTANTSET ti) =
     Some (INSTANTSET \<lparr>ti_instants =
       map (\<lambda>inst. tinstant_make (Float8 0) (tinstant_t inst)) (ti_instants ti)\<rparr>) \<and>
   (length (seq_instants seq) = 1 \<longrightarrow>
      tnpoint_speed route_length normi norms (SEQUENCE seq) = None) \<and>
   (seq_instants seq \<noteq> [] \<longrightarrow>
      (tnpoint_speed route_length normi norms (SEQUENCE seq) = None) =
      (length (seq_instants seq) = 1)) \<and>
   (\<not> seq_linear seq \<and> 2 \<le> length (seq_instants seq) \<longrightarrow>
      tnpoint_speed route_length normi norms (SEQUENCE seq) =
        Some (SEQUENCE (tsequence_make normi
          (map (\<lambda>inst. tinstant_make (Float8 0) (tinstant_t inst)) (seq_instants seq))
          (lower_inc seq) (upper_inc seq) False True))) \<and>
   (seq_linear seq \<and> 2 \<le> length (seq_instants seq) \<longrightarrow>
      tnpoint_speed route_length normi norms (SEQUENCE seq) =
        Some (SEQUENCE (tsequence_make normi
          (tnpointseq_speed_loop (route_length (rid (tinstant_value (seq_instants seq ! 0))))
             (drop 1 (seq_instants seq)) (seq_instants seq ! 0)
             (tinstant_value (seq_instants seq ! 0)) None (Float8 0))
          (lower_inc seq) (upper_inc seq) False True))) \<and>
   (list_all (\<lambda>seq. seq_instants seq \<noteq> []) (ts_sequences ts) \<longrightarrow>
      tnpoint_speed route_length normi norms (SEQUENCESET ts) =
        (if list_all (\<lambda>seq. length (seq_instants seq) = 1) (ts_sequences ts) then None
         else Some (SEQUENCESET (tsequenceset_make norms
           (List.map_filter (tnpointseq_speed route_length normi) (ts_sequences ts)) False))))"
proof -
  have "tnpoint_speed route_length normi norms (SEQUENCESET ts) =
        (if list_all (\<lambda>seq. length (seq_instants seq) = 1) (ts_sequences ts) then None
         else Some (SEQUENCESET (tsequenceset_make norms
           (List.map_filter (tnpointseq_speed route_length normi) (ts_sequences ts)) False)))"
    if ne: "list_all (\<lambda>seq. seq_instants seq \<noteq> []) (ts_sequences ts)"
  proof -
    have "List.map_filter (tnpointseq_speed route_length normi) (ts_sequences ts) = [] \<longleftrightarrow>
          list_all (\<lambda>seq. length (seq_instants seq) = 1) (ts_sequences ts)"
      using ne by (simp add: map_filter_Nil_iff list_all_iff tnpointseq_speed_None_iff)
    then show ?thesis
      by (simp add: tnpoints_speed_def tnpoints_speed_loop_map_filter Let_def STEP_def)
  qed
  moreover have "(tnpoint_speed route_length normi norms (SEQUENCE seq) = None) =
      (length (seq_instants seq) = 1)" if "seq_instants seq \<noteq> []"
    using that by (simp add: tnpointseq_speed_None_iff)
  ultimately show ?thesis
    by (simp add: tnpointinst_set_zero_def tnpointi_set_zero_def tinstantset_make_def
        tnpointseq_speed_def seq_count_def tsequence_inst_n_def Let_def STEP_def
        zero_float8_def)
qed

text \<open>
  Claim C2 as stated fails: the speed of an instant is a value, the zero at its timestamp,
  not \<^verbatim>\<open>NULL\<close>.
\<close>

theorem tnpoint_speed_instant_present:
  "tnpoint_speed (\<lambda>r. 100) (\<lambda>l xs. xs) (\<lambda>xs. xs) (INSTANT (tinstant_make \<lparr>rid = 1, pos = 0\<rparr> 0)) \<noteq> None \<and>
   tnpoint_speed (\<lambda>r. 100) (\<lambda>l xs. xs) (\<lambda>xs. xs) (INSTANT (tinstant_make \<lparr>rid = 1, pos = 0\<rparr> 0)) =
     Some (INSTANT (tinstant_make (Float8 0) 0))"
  by (simp add: tnpointinst_set_zero_def tinstant_make_def zero_float8_def)

text \<open>
  A linear sequence of one instant and a stepwise sequence set of two such sequences have
  no speed; a stepwise sequence of two instants has the speed zero at both; a linear
  sequence of two instants has a speed.
\<close>

theorem tnpoint_speed_absent_cases_witness:
  "length (seq_instants \<lparr>seq_instants = [tinstant_make \<lparr>rid = 1, pos = 0\<rparr> 0],
       lower_inc = True, upper_inc = True, seq_linear = True\<rparr>) = 1 \<and>
   tnpoint_speed (\<lambda>r. 100) (\<lambda>l xs. xs) (\<lambda>xs. xs)
     (SEQUENCE \<lparr>seq_instants = [tinstant_make \<lparr>rid = 1, pos = 0\<rparr> 0],
       lower_inc = True, upper_inc = True, seq_linear = True\<rparr>) = None \<and>
   tnpoint_speed (\<lambda>r. 100) (\<lambda>l xs. xs) (\<lambda>xs. xs)
     (SEQUENCE \<lparr>seq_instants = [tinstant_make \<lparr>rid = 1, pos = 0\<rparr> 0, tinstant_make \<lparr>rid = 1, pos = 1/2\<rparr> 10],
       lower_inc = True, upper_inc = True, seq_linear = False\<rparr>) =
     Some (SEQUENCE \<lparr>seq_instants = [tinstant_make (Float8 0) 0, tinstant_make (Float8 0) 10],
       lower_inc = True, upper_inc = True, seq_linear = False\<rparr>) \<and>
   seq_linear \<lparr>seq_instants = [tinstant_make \<lparr>rid = 1, pos = 0\<rparr> 0,
         tinstant_make \<lparr>rid = 1, pos = 1/2\<rparr> 10000000],
       lower_inc = True, upper_inc = True, seq_linear = True\<rparr> \<and>
   tnpoint_speed (\<lambda>r. 100) (\<lambda>l xs. xs) (\<lambda>xs. xs)
     (SEQUENCE \<lparr>seq_instants = [tinstant_make \<lparr>rid = 1, pos = 0\<rparr> 0,
         tinstant_make \<lparr>rid = 1, pos = 1/2\<rparr> 10000000],
       lower_inc = True, upper_inc = True, seq_linear = True\<rparr>) =
     Some (SEQUENCE \<lparr>seq_instants = [tinstant_make (Float8 5) 0, tinstant_make (Float8 5) 10000000],
       lower_inc = True, upper_inc = True, seq_linear = False\<rparr>) \<and>
   tnpoint_speed (\<lambda>r. 100) (\<lambda>l xs. xs) (\<lambda>xs. xs)
     (SEQUENCESET \<lparr>ts_sequences = [
        \<lparr>seq_instants = [tinstant_make \<lparr>rid = 1, pos = 0\<rparr> 0],
          lower_inc = True, upper_inc = True, seq_linear = False\<rparr>,
        \<lparr>seq_instants = [tinstant_make \<lparr>rid = 1, pos = 1/2\<rparr> 20],
          lower_inc = True, upper_inc = True, seq_linear = False\<rparr>], ts_linear = False\<rparr>) = None"
  using tnpoint_speed_absent_cases [of "\<lambda>r. 100" "\<lambda>l xs. xs" "\<lambda>xs. xs"
      "tinstant_make \<lparr>rid = 1, pos = 0\<rparr> 0" "\<lparr>ti_instants = []\<rparr>"
      "\<lparr>seq_instants = [tinstant_make \<lparr>rid = 1, pos = 0\<rparr> 0],
       lower_inc = True, upper_inc = True, seq_linear = True\<rparr>"
      "\<lparr>ts_sequences = [
        \<lparr>seq_instants = [tinstant_make \<lparr>rid = 1, pos = 0\<rparr> 0],
          lower_inc = True, upper_inc = True, seq_linear = False\<rparr>,
        \<lparr>seq_instants = [tinstant_make \<lparr>rid = 1, pos = 1/2\<rparr> 20],
          lower_inc = True, upper_inc = True, seq_linear = False\<rparr>], ts_linear = False\<rparr>"]
    tnpoint_speed_absent_cases [of "\<lambda>r. 100" "\<lambda>l xs. xs" "\<lambda>xs. xs"
      "tinstant_make \<lparr>rid = 1, pos = 0\<rparr> 0" "\<lparr>ti_instants = []\<rparr>"
      "\<lparr>seq_instants = [tinstant_make \<lparr>rid = 1, pos = 0\<rparr> 0, tinstant_make \<lparr>rid = 1, pos = 1/2\<rparr> 10],
       lower_inc = True, upper_inc = True, seq_linear = False\<rparr>"
      "\<lparr>ts_sequences = [], ts_linear = False\<rparr>"]
    tnpoint_speed_absent_cases [of "\<lambda>r. 100" "\<lambda>l xs. xs" "\<lambda>xs. xs"
      "tinstant_make \<lparr>rid = 1, pos = 0\<rparr> 0" "\<lparr>ti_instants = []\<rparr>"
      "\<lparr>seq_instants = [tinstant_make \<lparr>rid = 1, pos = 0\<rparr> 0,
         tinstant_make \<lparr>rid = 1, pos = 1/2\<rparr> 10000000],
       lower_inc = True, upper_inc = True, seq_linear = True\<rparr>"
      "\<lparr>ts_sequences = [], ts_linear = False\<rparr>"]
  by (simp add: tsequence_make_def tinstant_make_def Let_def double_divide_def
      double_of_int64_def)

text \<open>
  Claim C3. Three linear sequences on a route of length 100 that cover 50, 25 and 25 units.
  The results of the first two components end at 50 and 75, but the third component starts
  at 125: after the second component \<^verbatim>\<open>length += ...\<close> adds its final value 75, which
  already contains the 50 of the first, to the seed 50.
\<close>

theorem tnpoints_cumulative_length_three_sequences:
  "map (\<lambda>seq. map tinstant_value (seq_instants seq))
     (ts_sequences (tnpoints_cumulative_length (\<lambda>r. 100) (\<lambda>l xs. xs) (\<lambda>xs. xs)
        \<lparr>ts_sequences = [
           \<lparr>seq_instants = [tinstant_make \<lparr>rid = 1, pos = 0\<rparr> 0, tinstant_make \<lparr>rid = 1, pos = 1/2\<rparr> 10],
             lower_inc = True, upper_inc = True, seq_linear = True\<rparr>,
           \<lparr>seq_instants = [tinstant_make \<lparr>rid = 1, pos = 1/2\<rparr> 20, tinstant_make \<lparr>rid = 1, pos = 3/4\<rparr> 30],
             lower_inc = True, upper_inc = True, seq_linear = True\<rparr>,
           \<lparr>seq_instants = [tinstant_make \<lparr>rid = 1, pos = 3/4\<rparr> 40, tinstant_make \<lparr>rid = 1, pos = 1\<rparr> 50],
             lower_inc = True, upper_inc = True, seq_linear = True\<rparr>],
         ts_linear = True\<rparr>)) =
   [[0, 50], [50, 75], [125, 150]]"
  by (simp add: tnpoints_cumulative_length_def tsequenceset_make_def
      tnpointseq_cumulative_length_def seq_count_def tsequence_inst_n_def tsequence_make_def
      tinstant_make_def Let_def)


section \<open>Properties of the trajectory\<close>


text \<open>
  Claim C9. For two instants on the same route at different positions,
  \<^verbatim>\<open>tnpointseq_trajectory1\<close> returns the line of the route as it is exactly when the two
  positions are 0 and 1, in either order; otherwise it returns the part of the route line
  between the lower and the higher position, reversed when the first position is the
  greater one.
\<close>

theorem tnpointseq_trajectory1_cases:
  assumes "rid (tinstant_value inst1) = rid (tinstant_value inst2)"
    and "pos (tinstant_value inst1) \<noteq> pos (tinstant_value inst2)"
  shows "tnpointseq_trajectory1 inst1 inst2 =
       Inr (if (pos (tinstant_value inst1) = 0 \<and> pos (tinstant_value inst2) = 1) \<or>
               (pos (tinstant_value inst1) = 1 \<and> pos (tinstant_value inst2) = 0)
            then route_geom (rid (tinstant_value inst1))
            else if pos (tinstant_value inst2) < pos (tinstant_value inst1)
            then LWGEOM_reverse (LWGEOM_line_substring (route_geom (rid (tinstant_value inst1)))
                   (min (pos (tinstant_value inst1)) (pos (tinstant_value inst2)))
                   (max (pos (tinstant_value inst1)) (pos (tinstant_value inst2))))
            else LWGEOM_line_substring (route_geom (rid (tinstant_value inst1)))
                   (min (pos (tinstant_value inst1)) (pos (tinstant_value inst2)))
                   (max (pos (tinstant_value inst1)) (pos (tinstant_value inst2)))) \<and>
     (tnpointseq_trajectory1 inst1 inst2 = Inr (route_geom (rid (tinstant_value inst1))) \<longleftrightarrow>
        (pos (tinstant_value inst1) = 0 \<and> pos (tinstant_value inst2) = 1) \<or>
        (pos (tinstant_value inst1) = 1 \<and> pos (tinstant_value inst2) = 0))"
  using assms by (auto simp: tnpointseq_trajectory1_def Let_def min_def max_def)

text \<open>
  From 3/4 down to 1/4 the cut between 1/4 and 3/4 is reversed, from 1/4 up to 3/4 it is
  not, and from 1 to 0 the route line is returned uncut.
\<close>

theorem tnpointseq_trajectory1_cases_witness:
  "rid (tinstant_value (tinstant_make \<lparr>rid = 1, pos = 3/4\<rparr> 0)) =
     rid (tinstant_value (tinstant_make \<lparr>rid = 1, pos = 1/4\<rparr> 10)) \<and>
   pos (tinstant_value (tinstant_make \<lparr>rid = 1, pos = 3/4\<rparr> 0)) \<noteq>
     pos (tinstant_value (tinstant_make \<lparr>rid = 1, pos = 1/4\<rparr> 10)) \<and>
   tnpointseq_trajectory1 (tinstant_make \<lparr>rid = 1, pos = 3/4\<rparr> 0) (tinstant_make \<lparr>rid = 1, pos = 1/4\<rparr> 10) =
     Inr (LWGEOM_reverse (LWGEOM_line_substring (route_geom 1) (1/4) (3/4))) \<and>
   tnpointseq_trajectory1 (tinstant_make \<lparr>rid = 1, pos = 1/4\<rparr> 0) (tinstant_make \<lparr>rid = 1, pos = 3/4\<rparr> 10) =
     Inr (LWGEOM_line_substring (route_geom 1) (1/4) (3/4)) \<and>
   tnpointseq_trajectory1 (tinstant_make \<lparr>rid = 1, pos = 1\<rparr> 0) (tinstant_make \<lparr>rid = 1, pos = 0\<rparr> 10) =
     Inr (route_geom 1)"
  using tnpointseq_trajectory1_cases [of "tinstant_make \<lparr>rid = 1, pos = 3/4\<rparr> 0"
      "tinstant_make \<lparr>rid = 1, pos = 1/4\<rparr> 10"]
    tnpointseq_trajectory1_cases [of "tinstant_make \<lparr>rid = 1, pos = 1/4\<rparr> 0"
      "tinstant_make \<lparr>rid = 1, pos = 3/4\<rparr> 10"]
    tnpointseq_trajectory1_cases [of "tinstant_make \<lparr>rid = 1, pos = 1\<rparr> 0"
      "tinstant_make \<lparr>rid = 1, pos = 0\<rparr> 10"]
  by (simp add: tinstant_make_def)

text \<open>
  The loop over one sequence, by contrast, keeps a point equal to the point of every
  instant, whenever the equality is reflexive.
\<close>

lemma npoint_found_iff: "npoint_found eq np rs \<longleftrightarrow> (\<exists>r \<in> set rs. eq np r)"
  by (induction rs) auto

lemma npoints_loop_keeps: "r \<in> set result \<Longrightarrow> r \<in> set (npoints_loop eq insts result)"
  by (induction insts arbitrary: result) (simp_all add: Let_def)

lemma npoints_loop_covers:
  assumes "\<And>np. eq np np" and "inst \<in> set insts"
  shows "\<exists>r \<in> set (npoints_loop eq insts result). eq (tinstant_value inst) r"
  using assms(2)
proof (induction insts arbitrary: result)
  case Nil
  then show ?case by simp
next
  case (Cons a insts)
  show ?case
  proof (cases "inst = a")
    case True
    let ?res = "if npoint_found eq (tinstant_value a) result then result
                else result @ [tinstant_value a]"
    have "\<exists>r \<in> set ?res. eq (tinstant_value a) r"
      using assms(1) by (auto simp: npoint_found_iff)
    then obtain r where r: "r \<in> set ?res" "eq (tinstant_value a) r" by blast
    from r(1) have "r \<in> set (npoints_loop eq insts ?res)" by (rule npoints_loop_keeps)
    with r(2) have "\<exists>r \<in> set (npoints_loop eq insts ?res). eq (tinstant_value a) r" by blast
    with True show ?thesis by (simp add: Let_def)
  next
    case False
    with Cons.prems have "inst \<in> set insts" by simp
    from Cons.IH [OF this] show ?thesis by (simp add: Let_def)
  qed
qed

lemma tnpointseq_step_npoints_covers:
  assumes refl: "\<And>np. eq np np" and ne: "seq_instants seq \<noteq> []"
    and mem: "inst \<in> set (seq_instants seq)"
  shows "\<exists>r \<in> set (tnpointseq_step_npoints eq seq). eq (tinstant_value inst) r"
proof -
  from ne obtain a insts where S: "seq_instants seq = a # insts"
    by (cases "seq_instants seq") auto
  show ?thesis
  proof (cases "inst = a")
    case True
    have "tinstant_value a \<in> set (npoints_loop eq insts [tinstant_value a])"
      by (rule npoints_loop_keeps) simp
    with True refl show ?thesis
      by (auto simp: tnpointseq_step_npoints_def tsequence_inst_n_def S)
  next
    case False
    with mem S have "inst \<in> set insts" by simp
    from npoints_loop_covers [of eq inst insts "[tinstant_value a]", OF refl this]
    show ?thesis by (simp add: tnpointseq_step_npoints_def tsequence_inst_n_def S)
  qed
qed

text \<open>
  Claim C4. A stepwise sequence set of two sequences on route 1, at the positions 0 and 1/4
  and at the positions 1/2 and 3/4. The trajectories of the two sequences hold the four
  points, but the trajectory of the sequence set holds only 0 and 3/4: the outer loop of
  \<^verbatim>\<open>tnpoints_step_npoints\<close> starts at the sequence 1 and its inner loop at the instant 1, so
  the instants after the first of the sequence 0 and the first instant of every later
  sequence are never read.
\<close>

theorem tnpoints_geom_step_two_sequences:
  "tnpoints_geom (npoint_eq_internal (1/100000)) linear_positions positions
     \<lparr>ts_sequences = [
        \<lparr>seq_instants = [tinstant_make \<lparr>rid = 1, pos = 0\<rparr> 0, tinstant_make \<lparr>rid = 1, pos = 1/4\<rparr> 10],
          lower_inc = True, upper_inc = True, seq_linear = False\<rparr>,
        \<lparr>seq_instants = [tinstant_make \<lparr>rid = 1, pos = 1/2\<rparr> 20, tinstant_make \<lparr>rid = 1, pos = 3/4\<rparr> 30],
          lower_inc = True, upper_inc = True, seq_linear = False\<rparr>],
      ts_linear = False\<rparr> =
     npointarr_to_geom_internal [\<lparr>rid = 1, pos = 0\<rparr>, \<lparr>rid = 1, pos = 3/4\<rparr>] \<and>
   tnpointseq_geom (npoint_eq_internal (1/100000)) linear_positions
        \<lparr>seq_instants = [tinstant_make \<lparr>rid = 1, pos = 0\<rparr> 0, tinstant_make \<lparr>rid = 1, pos = 1/4\<rparr> 10],
          lower_inc = True, upper_inc = True, seq_linear = False\<rparr> =
     npointarr_to_geom_internal [\<lparr>rid = 1, pos = 0\<rparr>, \<lparr>rid = 1, pos = 1/4\<rparr>] \<and>
   tnpointseq_geom (npoint_eq_internal (1/100000)) linear_positions
        \<lparr>seq_instants = [tinstant_make \<lparr>rid = 1, pos = 1/2\<rparr> 20, tinstant_make \<lparr>rid = 1, pos = 3/4\<rparr> 30],
          lower_inc = True, upper_inc = True, seq_linear = False\<rparr> =
     npointarr_to_geom_internal [\<lparr>rid = 1, pos = 1/2\<rparr>, \<lparr>rid = 1, pos = 3/4\<rparr>]"
  by (simp add: tnpoints_geom_def tnpoints_step_npoints_def tnpointseq_geom_def
      tnpointseq_step_npoints_def seq_count_def tsequence_inst_n_def tinstant_make_def
      npoint_eq_internal_def Let_def)


section \<open>Properties of the functions that take a geometry\<close>


text \<open>
  Claim C10. With an empty geometry the six functions \<^verbatim>\<open>NAD_geometry_tnpoint\<close>,
  \<^verbatim>\<open>NAD_tnpoint_geometry\<close>, \<^verbatim>\<open>NAI_geometry_tnpoint\<close>, \<^verbatim>\<open>NAI_tnpoint_geometry\<close>,
  \<^verbatim>\<open>shortestline_geometry_tnpoint\<close> and \<^verbatim>\<open>shortestline_tnpoint_geometry\<close> return \<^verbatim>\<open>NULL\<close>
  and raise no error, whatever the functions of the geometry kernel and of the other modules
  would do: none of them is called.
\<close>

theorem empty_geometry_gives_null:
  assumes "gserialized_is_empty gs"
  shows "NAD_geometry_tnpoint eq linear_positions positions distance gs temp = Inr None \<and>
     NAD_tnpoint_geometry eq linear_positions positions distance temp gs = Inr None \<and>
     NAI_geometry_tnpoint as_tgeompoint NAI_tpoint_geo as_tnpointinst gs temp = Inr None \<and>
     NAI_tnpoint_geometry as_tgeompoint NAI_tpoint_geo as_tnpointinst temp gs = Inr None \<and>
     shortestline_geometry_tnpoint eq linear_positions positions shortestline2d gs temp = Inr None \<and>
     shortestline_tnpoint_geometry eq linear_positions positions shortestline2d temp gs = Inr None"
  using assms
  by (simp add: NAD_geometry_tnpoint_def NAD_tnpoint_geometry_def NAI_geometry_tnpoint_def
      NAI_tnpoint_geometry_def shortestline_geometry_tnpoint_def shortestline_tnpoint_geometry_def)

text \<open>
  With an empty geometry the result is \<^verbatim>\<open>NULL\<close> even when every outside function would
  raise an error.
\<close>

theorem empty_geometry_gives_null_witness:
  "gserialized_is_empty \<lparr>gserialized_get_srid = 0, gserialized_is_empty = True, gserialized_has_z = False\<rparr> \<and>
   NAD_geometry_tnpoint (=) (\<lambda>seq. \<lparr>nsegment_rid = 1, pos1 = 0, pos2 = 1\<rparr>) (\<lambda>ts. [])
     (\<lambda>traj g. Inl (ERRCODE_INTERNAL_ERROR ''distance''))
     \<lparr>gserialized_get_srid = 0, gserialized_is_empty = True, gserialized_has_z = False\<rparr>
     (INSTANT (tinstant_make \<lparr>rid = 1, pos = 0\<rparr> 0)) = Inr None \<and>
   NAI_tnpoint_geometry (\<lambda>temp. Inl (ERRCODE_INTERNAL_ERROR ''route'') :: error + unit Temporal)
     (\<lambda>geomtemp g. Inl (ERRCODE_INTERNAL_ERROR ''nai''))
     (\<lambda>inst. Inl (ERRCODE_INTERNAL_ERROR ''position''))
     (INSTANT (tinstant_make \<lparr>rid = 1, pos = 0\<rparr> 0))
     \<lparr>gserialized_get_srid = 0, gserialized_is_empty = True, gserialized_has_z = False\<rparr> = Inr None \<and>
   shortestline_tnpoint_geometry (=) (\<lambda>seq. \<lparr>nsegment_rid = 1, pos1 = 0, pos2 = 1\<rparr>) (\<lambda>ts. [])
     (\<lambda>traj g. Inl (ERRCODE_INTERNAL_ERROR ''shortestline'') :: error + geom)
     (INSTANT (tinstant_make \<lparr>rid = 1, pos = 0\<rparr> 0))
     \<lparr>gserialized_get_srid = 0, gserialized_is_empty = True, gserialized_has_z = False\<rparr> = Inr None"
  using empty_geometry_gives_null [of
      "\<lparr>gserialized_get_srid = 0, gserialized_is_empty = True, gserialized_has_z = False\<rparr>"
      "(=)" "\<lambda>seq. \<lparr>nsegment_rid = 1, pos1 = 0, pos2 = 1\<rparr>" "\<lambda>ts. []"
      "\<lambda>traj g. Inl (ERRCODE_INTERNAL_ERROR ''distance'')"
      "INSTANT (tinstant_make \<lparr>rid = 1, pos = 0\<rparr> 0)"
      "\<lambda>temp. Inl (ERRCODE_INTERNAL_ERROR ''route'') :: error + unit Temporal"
      "\<lambda>geomtemp g. Inl (ERRCODE_INTERNAL_ERROR ''nai'')"
      "\<lambda>inst. Inl (ERRCODE_INTERNAL_ERROR ''position'')"
      "\<lambda>traj g. Inl (ERRCODE_INTERNAL_ERROR ''shortestline'') :: error + geom"]
  by simp

text \<open>
  Claim C6, as the code has it. With an empty geometry whose SRID is the SRID of the
  temporal network point, \<^verbatim>\<open>tnpoint_at_geometry\<close> returns \<^verbatim>\<open>NULL\<close> and
  \<^verbatim>\<open>tnpoint_minus_geometry\<close> returns a copy of its argument. When the two SRIDs differ both
  raise the error of \<^verbatim>\<open>ensure_same_srid_tnpoint_gs\<close>, which is called before the test for
  an empty geometry.
\<close>

theorem tnpoint_restrict_empty_geometry:
  assumes "gserialized_is_empty gs"
  shows "(tnpoint_srid_internal route_srid box_srid temp = gserialized_get_srid gs \<longrightarrow>
       tnpoint_at_geometry route_srid box_srid as_tgeompoint restrict_geometry as_tnpoint temp gs =
         Inr None \<and>
       tnpoint_minus_geometry route_srid box_srid as_tgeompoint restrict_geometry as_tnpoint temp gs =
         Inr (Some temp)) \<and>
     (tnpoint_srid_internal route_srid box_srid temp \<noteq> gserialized_get_srid gs \<longrightarrow>
       tnpoint_at_geometry route_srid box_srid as_tgeompoint restrict_geometry as_tnpoint temp gs =
         Inl (ERRCODE_INVALID_PARAMETER_VALUE
           ''The temporal network point and the geometry must be in the same SRID'') \<and>
       tnpoint_minus_geometry route_srid box_srid as_tgeompoint restrict_geometry as_tnpoint temp gs =
         Inl (ERRCODE_INVALID_PARAMETER_VALUE
           ''The temporal network point and the geometry must be in the same SRID''))"
  using assms
  by (simp add: tnpoint_at_geometry_def tnpoint_minus_geometry_def bind_error_def
      ensure_same_srid_tnpoint_gs_def temporal_copy_def)

text \<open>
  Claim C6 as stated fails: for an instant on a route of SRID 4326 and an empty geometry of
  SRID 0 neither function returns; both raise the SRID error.
\<close>

theorem tnpoint_at_geometry_empty_other_srid:
  "gserialized_is_empty \<lparr>gserialized_get_srid = 0, gserialized_is_empty = True, gserialized_has_z = False\<rparr> \<and>
   tnpoint_at_geometry (\<lambda>r. 4326) (\<lambda>temp. 4326)
     (\<lambda>temp. Inr temp) (\<lambda>geomtemp g atfunc. Inr None) (\<lambda>g. Inr None)
     (INSTANT (tinstant_make \<lparr>rid = 1, pos = 0\<rparr> 0))
     \<lparr>gserialized_get_srid = 0, gserialized_is_empty = True, gserialized_has_z = False\<rparr> \<noteq> Inr None \<and>
   tnpoint_minus_geometry (\<lambda>r. 4326) (\<lambda>temp. 4326)
     (\<lambda>temp. Inr temp) (\<lambda>geomtemp g atfunc. Inr None) (\<lambda>g. Inr None)
     (INSTANT (tinstant_make \<lparr>rid = 1, pos = 0\<rparr> 0))
     \<lparr>gserialized_get_srid = 0, gserialized_is_empty = True, gserialized_has_z = False\<rparr> \<noteq>
       Inr (Some (INSTANT (tinstant_make \<lparr>rid = 1, pos = 0\<rparr> 0))) \<and>
   tnpoint_at_geometry (\<lambda>r. 4326) (\<lambda>temp. 4326)
     (\<lambda>temp. Inr temp) (\<lambda>geomtemp g atfunc. Inr None) (\<lambda>g. Inr None)
     (INSTANT (tinstant_make \<lparr>rid = 1, pos = 0\<rparr> 0))
     \<lparr>gserialized_get_srid = 0, gserialized_is_empty = True, gserialized_has_z = False\<rparr> =
       Inl (ERRCODE_INVALID_PARAMETER_VALUE
           ''The temporal network point and the geometry must be in the same SRID'')"
  by (simp add: tnpoint_at_geometry_def tnpoint_minus_geometry_def bind_error_def
      ensure_same_srid_tnpoint_gs_def tnpointinst_srid_def tinstant_make_def)

text \<open>
  An instant on a route of SRID 4326: with an empty geometry of SRID 4326 the restriction is
  \<^verbatim>\<open>NULL\<close> and the difference is the instant; with an empty geometry of SRID 0 the error is
  raised.
\<close>

theorem tnpoint_restrict_empty_geometry_witness:
  "gserialized_is_empty \<lparr>gserialized_get_srid = 4326, gserialized_is_empty = True, gserialized_has_z = False\<rparr> \<and>
   tnpoint_srid_internal (\<lambda>r. 4326) (\<lambda>temp. 4326) (INSTANT (tinstant_make \<lparr>rid = 1, pos = 0\<rparr> 0)) =
     gserialized_get_srid \<lparr>gserialized_get_srid = 4326, gserialized_is_empty = True, gserialized_has_z = False\<rparr> \<and>
   tnpoint_at_geometry (\<lambda>r. 4326) (\<lambda>temp. 4326)
     (\<lambda>temp. Inr temp) (\<lambda>geomtemp g atfunc. Inr None) (\<lambda>g. Inr None)
     (INSTANT (tinstant_make \<lparr>rid = 1, pos = 0\<rparr> 0))
     \<lparr>gserialized_get_srid = 4326, gserialized_is_empty = True, gserialized_has_z = False\<rparr> = Inr None \<and>
   tnpoint_minus_geometry (\<lambda>r. 4326) (\<lambda>temp. 4326)
     (\<lambda>temp. Inr temp) (\<lambda>geomtemp g atfunc. Inr None) (\<lambda>g. Inr None)
     (INSTANT (tinstant_make \<lparr>rid = 1, pos = 0\<rparr> 0))
     \<lparr>gserialized_get_srid = 4326, gserialized_is_empty = True, gserialized_has_z = False\<rparr> =
       Inr (Some (INSTANT (tinstant_make \<lparr>rid = 1, pos = 0\<rparr> 0))) \<and>
   tnpoint_srid_internal (\<lambda>r. 4326) (\<lambda>temp. 4326) (INSTANT (tinstant_make \<lparr>rid = 1, pos = 0\<rparr> 0)) \<noteq>
     gserialized_get_srid \<lparr>gserialized_get_srid = 0, gserialized_is_empty = True, gserialized_has_z = False\<rparr> \<and>
   tnpoint_at_geometry (\<lambda>r. 4326) (\<lambda>temp. 4326)
     (\<lambda>temp. Inr temp) (\<lambda>geomtemp g atfunc. Inr None) (\<lambda>g. Inr None)
     (INSTANT (tinstant_make \<lparr>rid = 1, pos = 0\<rparr> 0))
     \<lparr>gserialized_get_srid = 0, gserialized_is_empty = True, gserialized_has_z = False\<rparr> =
       Inl (ERRCODE_INVALID_PARAMETER_VALUE
           ''The temporal network point and the geometry must be in the same SRID'')"
  using tnpoint_restrict_empty_geometry [of
      "\<lparr>gserialized_get_srid = 4326, gserialized_is_empty = True, gserialized_has_z = False\<rparr>"
      "\<lambda>r. 4326" "\<lambda>temp. 4326" "INSTANT (tinstant_make \<lparr>rid = 1, pos = 0\<rparr> 0)"
      "\<lambda>temp. Inr temp" "\<lambda>geomtemp g atfunc. Inr None" "\<lambda>g. Inr None"]
    tnpoint_restrict_empty_geometry [of
      "\<lparr>gserialized_get_srid = 0, gserialized_is_empty = True, gserialized_has_z = False\<rparr>"
      "\<lambda>r. 4326" "\<lambda>temp. 4326" "INSTANT (tinstant_make \<lparr>rid = 1, pos = 0\<rparr> 0)"
      "\<lambda>temp. Inr temp" "\<lambda>geomtemp g atfunc. Inr None" "\<lambda>g. Inr None"]
  by (simp add: tnpointinst_srid_def tinstant_make_def)


section \<open>Properties of the nearest approach distance\<close>


text \<open>
  Claim C1, as the code has it. \<^verbatim>\<open>NAD_tnpoint_tnpoint\<close> returns \<^verbatim>\<open>NULL\<close> whenever the
  temporal distance is \<^verbatim>\<open>NULL\<close>, and the minimum value of the temporal distance otherwise;
  it never computes a trajectory. With the temporal distance of the specification, which is
  absent exactly when the two values do not overlap in time, the result is \<^verbatim>\<open>NULL\<close> for
  values disjoint in time and the minimum of the synchronized distance for the others.
\<close>

theorem NAD_tnpoint_tnpoint_cases:
  "(distance temp1 temp2 = None \<longrightarrow>
      NAD_tnpoint_tnpoint distance min_value temp1 temp2 = None) \<and>
   (\<forall>d. distance temp1 temp2 = Some d \<longrightarrow>
      NAD_tnpoint_tnpoint distance min_value temp1 temp2 = Some (min_value d)) \<and>
   (\<not> time_overlaps temp1 temp2 \<longrightarrow>
      NAD_tnpoint_tnpoint (distance_tnpoint_tnpoint_internal sync_distance) min_value temp1 temp2 =
        None) \<and>
   (time_overlaps temp1 temp2 \<longrightarrow>
      NAD_tnpoint_tnpoint (distance_tnpoint_tnpoint_internal sync_distance) min_value temp1 temp2 =
        Some (min_value (sync_distance temp1 temp2)))"
  by (simp add: NAD_tnpoint_tnpoint_def distance_tnpoint_tnpoint_internal_def)

text \<open>
  Claim C1 as stated fails: for a sequence over the times 0 to 10 and one over 20 to 30 the
  result is \<^verbatim>\<open>NULL\<close>, not a distance between the two trajectories.
\<close>

theorem NAD_tnpoint_tnpoint_disjoint_null:
  "\<not> time_overlaps
       (SEQUENCE \<lparr>seq_instants =
          [tinstant_make \<lparr>rid = 1, pos = 0\<rparr> 0, tinstant_make \<lparr>rid = 1, pos = 1/2\<rparr> 10],
          lower_inc = True, upper_inc = True, seq_linear = True\<rparr>)
       (SEQUENCE \<lparr>seq_instants =
          [tinstant_make \<lparr>rid = 1, pos = 1/2\<rparr> 20, tinstant_make \<lparr>rid = 1, pos = 1\<rparr> 30],
          lower_inc = True, upper_inc = True, seq_linear = True\<rparr>) \<and>
   NAD_tnpoint_tnpoint
       (distance_tnpoint_tnpoint_internal (\<lambda>temp1 temp2. INSTANT (tinstant_make 0 0)))
       (\<lambda>dist. 0)
       (SEQUENCE \<lparr>seq_instants =
          [tinstant_make \<lparr>rid = 1, pos = 0\<rparr> 0, tinstant_make \<lparr>rid = 1, pos = 1/2\<rparr> 10],
          lower_inc = True, upper_inc = True, seq_linear = True\<rparr>)
       (SEQUENCE \<lparr>seq_instants =
          [tinstant_make \<lparr>rid = 1, pos = 1/2\<rparr> 20, tinstant_make \<lparr>rid = 1, pos = 1\<rparr> 30],
          lower_inc = True, upper_inc = True, seq_linear = True\<rparr>) = None"
  by (simp add: NAD_tnpoint_tnpoint_def distance_tnpoint_tnpoint_internal_def time_overlaps_def
      seq_period_def tinstant_make_def)

text \<open>
  Two instants at different times have no nearest approach distance; two instants at the
  same time have the minimum of their temporal distance.
\<close>

theorem NAD_tnpoint_tnpoint_cases_witness:
  "\<not> time_overlaps
       (INSTANT (tinstant_make \<lparr>rid = 1, pos = 0\<rparr> 0))
       (INSTANT (tinstant_make \<lparr>rid = 1, pos = 1\<rparr> 20)) \<and>
   NAD_tnpoint_tnpoint
       (distance_tnpoint_tnpoint_internal (\<lambda>temp1 temp2. INSTANT (tinstant_make 7 5)))
       (\<lambda>dist. case dist of INSTANT inst \<Rightarrow> tinstant_value inst | _ \<Rightarrow> 0)
       (INSTANT (tinstant_make \<lparr>rid = 1, pos = 0\<rparr> 0))
       (INSTANT (tinstant_make \<lparr>rid = 1, pos = 1\<rparr> 20)) = None \<and>
   time_overlaps
       (INSTANT (tinstant_make \<lparr>rid = 1, pos = 0\<rparr> 5))
       (INSTANT (tinstant_make \<lparr>rid = 1, pos = 1\<rparr> 5)) \<and>
   NAD_tnpoint_tnpoint
       (distance_tnpoint_tnpoint_internal (\<lambda>temp1 temp2. INSTANT (tinstant_make 7 5)))
       (\<lambda>dist. case dist of INSTANT inst \<Rightarrow> tinstant_value inst | _ \<Rightarrow> 0)
       (INSTANT (tinstant_make \<lparr>rid = 1, pos = 0\<rparr> 5))
       (INSTANT (tinstant_make \<lparr>rid = 1, pos = 1\<rparr> 5)) = Some 7"
  using NAD_tnpoint_tnpoint_cases [of
      "distance_tnpoint_tnpoint_internal (\<lambda>temp1 temp2. INSTANT (tinstant_make 7 5))"
      "INSTANT (tinstant_make \<lparr>rid = 1, pos = 0\<rparr> 0)"
      "INSTANT (tinstant_make \<lparr>rid = 1, pos = 1\<rparr> 20)"
      "\<lambda>dist. case dist of INSTANT inst \<Rightarrow> tinstant_value inst | _ \<Rightarrow> 0"
      "\<lambda>temp1 temp2. INSTANT (tinstant_make 7 5)"]
    NAD_tnpoint_tnpoint_cases [of
      "distance_tnpoint_tnpoint_internal (\<lambda>temp1 temp2. INSTANT (tinstant_make 7 5))"
      "INSTANT (tinstant_make \<lparr>rid = 1, pos = 0\<rparr> 5)"
      "INSTANT (tinstant_make \<lparr>rid = 1, pos = 1\<rparr> 5)"
      "\<lambda>dist. case dist of INSTANT inst \<Rightarrow> tinstant_value inst | _ \<Rightarrow> 0"
      "\<lambda>temp1 temp2. INSTANT (tinstant_make 7 5)"]
  by (simp add: time_overlaps_def tinstant_make_def)



section \<open>Properties of the azimuth\<close>


lemma bind_error_Inl: "bind_error (Inl e) f = Inl e"
  by (simp add: bind_error_def)

lemma bind_error_Inr: "bind_error (Inr x) f = f x"
  by (simp add: bind_error_def)

lemma bind_error_assoc:
  "bind_error (bind_error r f) g = bind_error r (\<lambda>x. bind_error (f x) g)"
  by (cases r) (simp_all add: bind_error_def)

lemma map_nth_upt_drop:
  "m \<le> length xs \<Longrightarrow> map (\<lambda>j. xs ! j) [m..<length xs] = drop m xs"
proof -
  have "map (\<lambda>j. xs ! j) [m..<length xs] = map (\<lambda>j. xs ! j) (drop m [0..<length xs])"
    by simp
  also have "\<dots> = drop m (map (\<lambda>j. xs ! j) [0..<length xs])"
    by (simp only: drop_map)
  also have "\<dots> = drop m xs"
    by (simp add: map_nth)
  finally show ?thesis .
qed

lemma map_nth_append_upt:
  "i \<le> length xs \<Longrightarrow> map (\<lambda>j. (xs @ ys) ! j) [m..<i] = map (\<lambda>j. xs ! j) [m..<i]"
  by (simp add: nth_append)

lemma azimuth2_assemble_close:
  assumes "m \<le> length instants" and "concat (drop m instants) \<noteq> []"
  shows "azimuth2_assemble normi (instants @ rest) m (length instants) inst1 True =
         azimuth_close normi (concat (drop m instants)) (tinstant_t inst1)"
proof -
  have "map (\<lambda>j. (instants @ rest) ! j) [m..<length instants] = drop m instants"
    using assms(1) by (simp add: map_nth_append_upt map_nth_upt_drop)
  with assms(2) show ?thesis
    by (simp add: azimuth2_assemble_def azimuth_close_def Let_def STEP_def last_conv_nth)
qed

text \<open>
  The loop of \<^verbatim>\<open>tnpointseq_azimuth2\<close>, followed by the assembly after it, computes the runs
  of the remaining segments: the instants accumulated since the last split are those of the
  arrays \<^verbatim>\<open>instants[m ..]\<close>, \<^verbatim>\<open>totalinsts\<close> is their number, and \<^verbatim>\<open>lower_inc\<close> is true as soon
  as one instant is accumulated.
\<close>

lemma tnpointseq_azimuth2_loop_runs:
  assumes "m \<le> length instants"
    and "totalinsts = length (concat (drop m instants))"
    and "totalinsts \<noteq> 0 \<longrightarrow> lower_inc1"
    and "cnt = length instants + length insts"
  shows "bind_error
       (tnpointseq_azimuth2_loop K normi insts instants totalinsts result m inst1 lower_inc1)
       (\<lambda>(instants, totalinsts, result, m, inst1, lower_inc1).
           if totalinsts \<noteq> 0 then
             Inr (result @ [azimuth2_assemble normi instants m cnt inst1 lower_inc1])
           else Inr result) =
     bind_error (azimuth_segments K (inst1 # insts)) (\<lambda>segments.
       Inr (result @ azimuth_runs normi segments (concat (drop m instants))
              (tinstant_t (last (inst1 # insts)))))"
  using assms
proof (induction insts arbitrary: instants totalinsts result m inst1 lower_inc1)
  case Nil
  show ?case
  proof (cases "totalinsts = 0")
    case True
    with Nil show ?thesis by (simp add: bind_error_Inr)
  next
    case False
    with Nil have ne: "concat (drop m instants) \<noteq> []" and li: "lower_inc1" by auto
    from azimuth2_assemble_close [OF Nil.prems(1) ne, of normi "[]" inst1] False ne li Nil.prems(4)
    show ?thesis by (simp add: bind_error_Inr)
  qed
next
  case (Cons inst2 insts)
  define acc where "acc = concat (drop m instants)"
  let ?fin = "\<lambda>(instants, totalinsts, result, m, inst1, lower_inc1).
           if totalinsts \<noteq> 0 then
             Inr (result @ [azimuth2_assemble normi instants m cnt inst1 lower_inc1])
           else Inr result"
  define tend where "tend = tinstant_t (last (inst2 # insts))"
  have tend': "tinstant_t (last (inst1 # inst2 # insts)) = tend"
    by (simp add: tend_def)
  show ?case
  proof (cases "tnpointseq_azimuth1 K inst1 inst2")
    case (Inl e)
    then show ?thesis by (simp add: bind_error_Inl)
  next
    case (Inr segment)
    let ?instants1 = "instants @ [segment]"
    have len: "cnt = length ?instants1 + length insts"
      using Cons.prems(4) by simp
    have drop_app: "concat (drop m ?instants1) = acc @ segment"
      using Cons.prems(1) by (simp add: acc_def)
    have drop_i: "concat (drop (length instants) ?instants1) = segment"
      by simp
    have le: "m \<le> length ?instants1"
      using Cons.prems(1) by simp
    have total: "totalinsts = length acc"
      using Cons.prems(2) by (simp only: acc_def)
    have segs: "bind_error (azimuth_segments K (inst1 # inst2 # insts)) G =
        bind_error (azimuth_segments K (inst2 # insts))
          (\<lambda>segments. G ((tinstant_t inst1, segment) # segments))" for G
      using Inr by (simp add: bind_error_Inr bind_error_assoc)
    show ?thesis
    proof (cases "segment = []")
      case False
      have "bind_error (tnpointseq_azimuth2_loop K normi (inst2 # insts) instants totalinsts
                result m inst1 lower_inc1) ?fin =
            bind_error (tnpointseq_azimuth2_loop K normi insts ?instants1
                (totalinsts + length segment) result m inst2 True) ?fin"
        using Inr False by (simp add: bind_error_Inr Let_def)
      also have "\<dots> = bind_error (azimuth_segments K (inst2 # insts)) (\<lambda>segments.
              Inr (result @ azimuth_runs normi segments (concat (drop m ?instants1)) tend))"
        unfolding tend_def
        by (rule Cons.IH) (use le len drop_app total in simp_all)
      also have "\<dots> = bind_error (azimuth_segments K (inst1 # inst2 # insts)) (\<lambda>segments.
              Inr (result @ azimuth_runs normi segments acc tend))"
        using False by (simp only: segs drop_app azimuth_runs.simps if_False)
      finally show ?thesis
        by (simp only: tend' acc_def)
    next
      case True
      note seg = True
      show ?thesis
      proof (cases "totalinsts = 0")
        case True
        with total have acc: "acc = []" by simp
        have "bind_error (tnpointseq_azimuth2_loop K normi (inst2 # insts) instants totalinsts
                result m inst1 lower_inc1) ?fin =
            bind_error (tnpointseq_azimuth2_loop K normi insts ?instants1
                totalinsts result m inst2 True) ?fin"
          using Inr seg True by (simp add: bind_error_Inr Let_def)
        also have "\<dots> = bind_error (azimuth_segments K (inst2 # insts)) (\<lambda>segments.
              Inr (result @ azimuth_runs normi segments (concat (drop m ?instants1)) tend))"
          unfolding tend_def
          by (rule Cons.IH) (use le len drop_app True acc seg in simp_all)
        also have "\<dots> = bind_error (azimuth_segments K (inst1 # inst2 # insts)) (\<lambda>segments.
              Inr (result @ azimuth_runs normi segments acc tend))"
          by (simp only: segs drop_app) (simp add: seg acc)
        finally show ?thesis
          by (simp only: tend' acc_def)
      next
        case False
        with Cons.prems total have ne: "acc \<noteq> []" and li: "lower_inc1" by auto
        let ?closed = "azimuth_close normi acc (tinstant_t inst1)"
        have asm: "azimuth2_assemble normi ?instants1 m (length instants) inst1 lower_inc1 = ?closed"
          using azimuth2_assemble_close [OF Cons.prems(1), of normi "[segment]" inst1] ne li
          by (simp add: acc_def)
        have "bind_error (tnpointseq_azimuth2_loop K normi (inst2 # insts) instants totalinsts
                result m inst1 lower_inc1) ?fin =
            bind_error (tnpointseq_azimuth2_loop K normi insts ?instants1
                0 (result @ [?closed]) (length instants) inst2 True) ?fin"
          using Inr seg False asm by (simp add: bind_error_Inr Let_def)
        also have "\<dots> = bind_error (azimuth_segments K (inst2 # insts)) (\<lambda>segments.
              Inr ((result @ [?closed]) @ azimuth_runs normi segments
                     (concat (drop (length instants) ?instants1)) tend))"
          unfolding tend_def
          by (rule Cons.IH) (use len seg in simp_all)
        also have "\<dots> = bind_error (azimuth_segments K (inst1 # inst2 # insts)) (\<lambda>segments.
              Inr (result @ azimuth_runs normi segments acc tend))"
          by (simp only: segs drop_i) (simp add: seg ne)
        finally show ?thesis
          by (simp only: tend' acc_def)
      qed
    qed
  qed
qed


lemma tnpointseq_azimuth2_runs:
  assumes "seq_instants seq \<noteq> []"
  shows "tnpointseq_azimuth2 K normi seq =
     bind_error (azimuth_segments K (seq_instants seq)) (\<lambda>segments.
       Inr (azimuth_runs normi segments [] (tinstant_t (last (seq_instants seq)))))"
proof -
  from assms obtain inst1 insts where S: "seq_instants seq = inst1 # insts"
    by (cases "seq_instants seq") auto
  show ?thesis
  proof (cases "insts = []")
    case True
    with S show ?thesis
      by (simp add: tnpointseq_azimuth2_def seq_count_def bind_error_Inr)
  next
    case False
    have c: "(seq_count seq = 1) = False" "seq_count seq - 1 = length insts"
      "drop 1 (seq_instants seq) = insts" "tsequence_inst_n seq 0 = inst1"
      using False S by (simp_all add: seq_count_def tsequence_inst_n_def)
    have "tnpointseq_azimuth2 K normi seq = bind_error
       (tnpointseq_azimuth2_loop K normi insts [] 0 [] 0 inst1 (lower_inc seq))
       (\<lambda>(instants, totalinsts, result, m, inst1, lower_inc1).
           if totalinsts \<noteq> 0 then
             Inr (result @ [azimuth2_assemble normi instants m (length insts) inst1 lower_inc1])
           else Inr result)"
      by (simp only: tnpointseq_azimuth2_def c if_False)
    also have "\<dots> = bind_error (azimuth_segments K (inst1 # insts)) (\<lambda>segments.
       Inr ([] @ azimuth_runs normi segments (concat (drop 0 []))
              (tinstant_t (last (inst1 # insts)))))"
      by (rule tnpointseq_azimuth2_loop_runs) simp_all
    finally show ?thesis
      by (simp only: S append_Nil drop_0 concat.simps)
  qed
qed

lemma tnpointseq_azimuth1_constant:
  "pos (tinstant_value inst1) = pos (tinstant_value inst2) \<Longrightarrow>
   tnpointseq_azimuth1 K inst1 inst2 = Inr []"
  by (simp add: tnpointseq_azimuth1_def Let_def)

lemma azimuth_runs_split:
  "azimuth_runs normi (segments1 @ (tm, []) # segments2) acc tend =
     azimuth_runs normi segments1 acc tm @ azimuth_runs normi segments2 [] tend"
  by (induction segments1 arbitrary: acc) auto

lemma azimuth_runs_one_run:
  "\<forall>s \<in> set segments. snd s \<noteq> [] \<Longrightarrow>
   azimuth_runs normi segments acc tend =
     (if acc @ concat (map snd segments) = [] then []
      else [azimuth_close normi (acc @ concat (map snd segments)) tend])"
  by (induction segments arbitrary: acc) auto

lemma azimuth_runs_all_constant:
  "\<forall>s \<in> set segments. snd s = [] \<Longrightarrow> azimuth_runs normi segments [] tend = []"
  by (induction segments) auto

lemma azimuth_segments_length:
  "azimuth_segments K insts = Inr segments \<Longrightarrow> length segments = length insts - 1"
proof (induction K insts arbitrary: segments rule: azimuth_segments.induct)
  case (1 K inst1 inst2 insts)
  from "1.prems" obtain segment rest where
    a: "tnpointseq_azimuth1 K inst1 inst2 = Inr segment" and
    b: "azimuth_segments K (inst2 # insts) = Inr rest" and
    c: "segments = (tinstant_t inst1, segment) # rest"
    by (auto simp: bind_error_def split: sum.splits)
  from "1.IH" [OF b] c show ?case by simp
qed simp_all

lemma azimuth_segments_split:
  assumes "pos (tinstant_value a) = pos (tinstant_value b)"
  shows "azimuth_segments K (P @ a # b # Q) =
     bind_error (azimuth_segments K (P @ [a])) (\<lambda>segments1.
       bind_error (azimuth_segments K (b # Q)) (\<lambda>segments2.
         Inr (segments1 @ (tinstant_t a, []) # segments2)))"
proof (induction P)
  case Nil
  from assms show ?case
    by (simp add: tnpointseq_azimuth1_constant bind_error_Inr)
next
  case (Cons p P)
  obtain x xs where X: "P @ a # b # Q = x # xs" by (cases "P @ a # b # Q") auto
  obtain y ys where Y: "P @ [a] = y # ys" by (cases "P @ [a]") auto
  have xy: "x = y" using X Y by (cases P) auto
  have "azimuth_segments K (p # P @ a # b # Q) =
      bind_error (tnpointseq_azimuth1 K p x) (\<lambda>segment.
        bind_error (azimuth_segments K (P @ a # b # Q)) (\<lambda>segments.
          Inr ((tinstant_t p, segment) # segments)))"
    by (simp add: X)
  moreover have "azimuth_segments K (p # P @ [a]) =
      bind_error (tnpointseq_azimuth1 K p x) (\<lambda>segment.
        bind_error (azimuth_segments K (P @ [a])) (\<lambda>segments.
          Inr ((tinstant_t p, segment) # segments)))"
    by (simp add: Y xy)
  ultimately show ?case
    by (simp add: Cons.IH bind_error_assoc bind_error_Inr)
qed

lemma azimuth_segments_all_constant:
  assumes "\<forall>i < length insts - 1.
      pos (tinstant_value (insts ! i)) = pos (tinstant_value (insts ! (i + 1)))"
  shows "\<exists>segments. azimuth_segments K insts = Inr segments \<and> (\<forall>s \<in> set segments. snd s = [])"
  using assms
proof (induction K insts rule: azimuth_segments.induct)
  case (1 K inst1 inst2 insts)
  from "1.prems" have "pos (tinstant_value inst1) = pos (tinstant_value inst2)"
    by (metis length_Cons nth_Cons_0 nth_Cons_Suc add.left_neutral diff_Suc_1 zero_less_Suc Suc_eq_plus1)
  then have a: "tnpointseq_azimuth1 K inst1 inst2 = Inr []"
    by (rule tnpointseq_azimuth1_constant)
  have "\<forall>i < length (inst2 # insts) - 1.
      pos (tinstant_value ((inst2 # insts) ! i)) = pos (tinstant_value ((inst2 # insts) ! (i + 1)))"
  proof (intro allI impI)
    fix i assume "i < length (inst2 # insts) - 1"
    then have "Suc i < length (inst1 # inst2 # insts) - 1" by simp
    with "1.prems" have "pos (tinstant_value ((inst1 # inst2 # insts) ! Suc i)) =
        pos (tinstant_value ((inst1 # inst2 # insts) ! (Suc i + 1)))" by blast
    then show "pos (tinstant_value ((inst2 # insts) ! i)) =
        pos (tinstant_value ((inst2 # insts) ! (i + 1)))" by simp
  qed
  from "1.IH" [OF this] obtain rest where
    "azimuth_segments K (inst2 # insts) = Inr rest" "\<forall>s \<in> set rest. snd s = []" by blast
  with a show ?case by (simp add: bind_error_Inr)
qed simp_all


lemma tnpointseq_azimuth2_split:
  assumes "pos (tinstant_value a) = pos (tinstant_value b)"
  shows "tnpointseq_azimuth2 K normi (seq\<lparr>seq_instants := P @ a # b # Q\<rparr>) =
     bind_error (tnpointseq_azimuth2 K normi (seq\<lparr>seq_instants := P @ [a]\<rparr>)) (\<lambda>sequences1.
     bind_error (tnpointseq_azimuth2 K normi (seq\<lparr>seq_instants := b # Q\<rparr>)) (\<lambda>sequences2.
       Inr (sequences1 @ sequences2)))"
proof -
  have l1: "last (P @ a # b # Q) = last (b # Q)" by simp
  have "tnpointseq_azimuth2 K normi (seq\<lparr>seq_instants := P @ a # b # Q\<rparr>) =
      bind_error (azimuth_segments K (P @ [a])) (\<lambda>segments1.
        bind_error (azimuth_segments K (b # Q)) (\<lambda>segments2.
          Inr (azimuth_runs normi segments1 [] (tinstant_t a) @
               azimuth_runs normi segments2 [] (tinstant_t (last (b # Q))))))"
    by (simp add: tnpointseq_azimuth2_runs azimuth_segments_split [OF assms] bind_error_assoc
        bind_error_Inr azimuth_runs_split l1 del: last.simps azimuth_segments.simps)
  moreover have "tnpointseq_azimuth2 K normi (seq\<lparr>seq_instants := P @ [a]\<rparr>) =
      bind_error (azimuth_segments K (P @ [a])) (\<lambda>segments.
        Inr (azimuth_runs normi segments [] (tinstant_t a)))"
    by (simp add: tnpointseq_azimuth2_runs del: azimuth_segments.simps)
  moreover have "tnpointseq_azimuth2 K normi (seq\<lparr>seq_instants := b # Q\<rparr>) =
      bind_error (azimuth_segments K (b # Q)) (\<lambda>segments.
        Inr (azimuth_runs normi segments [] (tinstant_t (last (b # Q)))))"
    by (simp add: tnpointseq_azimuth2_runs del: last.simps azimuth_segments.simps)
  ultimately show ?thesis
    by (simp add: bind_error_assoc bind_error_Inr del: last.simps azimuth_segments.simps)
qed

lemma tnpointseq_azimuth2_one_run:
  assumes "2 \<le> length (seq_instants seq)"
    and "azimuth_segments K (seq_instants seq) = Inr segments"
    and "\<forall>s \<in> set segments. snd s \<noteq> []"
  shows "tnpointseq_azimuth2 K normi seq =
     Inr [tsequence_make normi
            (concat (map snd segments) @
             [tinstant_make (tinstant_value (last (concat (map snd segments))))
                (tinstant_t (last (seq_instants seq)))])
            True True False True]"
proof -
  from assms(1) have ne: "seq_instants seq \<noteq> []" by auto
  from azimuth_segments_length [OF assms(2)] assms(1) have "segments \<noteq> []" by auto
  with assms(3) have "concat (map snd segments) \<noteq> []"
    by (cases segments) auto
  with assms(2) azimuth_runs_one_run [OF assms(3), of normi "[]"] show ?thesis
    by (simp add: tnpointseq_azimuth2_runs [OF ne] bind_error_Inr azimuth_close_def)
qed

lemma tnpoint_azimuth_linear_sequence:
  assumes "seq_linear seq"
  shows "tnpoint_azimuth K normi norms (SEQUENCE seq) =
     bind_error (tnpointseq_azimuth2 K normi seq) (\<lambda>sequences.
       Inr (if sequences = [] then None
            else Some (SEQUENCESET (tsequenceset_make norms sequences True))))"
  using assms
  by (cases "tnpointseq_azimuth2 K normi seq")
    (simp_all add: tnpointseq_azimuth_def bind_error_def)

lemma tnpointseq_azimuth2_all_constant:
  assumes "seq_instants seq \<noteq> []"
    and "\<forall>i < length (seq_instants seq) - 1.
      pos (tinstant_value (seq_instants seq ! i)) = pos (tinstant_value (seq_instants seq ! (i + 1)))"
  shows "tnpointseq_azimuth2 K normi seq = Inr []"
proof -
  from azimuth_segments_all_constant [OF assms(2), of K] obtain segments where
    "azimuth_segments K (seq_instants seq) = Inr segments" "\<forall>s \<in> set segments. snd s = []"
    by blast
  then show ?thesis
    by (simp add: tnpointseq_azimuth2_runs [OF assms(1)] bind_error_Inr azimuth_runs_all_constant)
qed

text \<open>
  Claim C7. A constant segment, from \<open>a\<close> to \<open>b\<close> at the same position, gives no azimuth
  instant and splits the sequence: the result for the instants \<open>P @ a # b # Q\<close> is the result
  for \<open>P @ [a]\<close>, whose last sequence is closed at the time of \<open>a\<close>, the start of the constant
  segment, followed by the result for \<open>b # Q\<close>, a new accumulation. A sequence of two or more
  instants all of whose segments have azimuth instants gives one sequence: the instants of
  its segments in order and a closing instant that repeats the last value at the time of
  the last instant. In general the result is the list of runs described above. For a linear
  sequence \<^verbatim>\<open>tnpoint_azimuth\<close> returns \<^verbatim>\<open>NULL\<close> when that list is empty and the sequence set
  of the list otherwise; it is \<^verbatim>\<open>NULL\<close> when all the segments are constant.
\<close>

theorem tnpointseq_azimuth_constant_segments:
  "(pos (tinstant_value a) = pos (tinstant_value b) \<longrightarrow>
      tnpointseq_azimuth1 K a b = Inr [] \<and>
      tnpointseq_azimuth2 K normi (seq\<lparr>seq_instants := P @ a # b # Q\<rparr>) =
        bind_error (tnpointseq_azimuth2 K normi (seq\<lparr>seq_instants := P @ [a]\<rparr>)) (\<lambda>sequences1.
        bind_error (tnpointseq_azimuth2 K normi (seq\<lparr>seq_instants := b # Q\<rparr>)) (\<lambda>sequences2.
          Inr (sequences1 @ sequences2)))) \<and>
   (2 \<le> length (seq_instants seq) \<and> azimuth_segments K (seq_instants seq) = Inr segments \<and>
    (\<forall>s \<in> set segments. snd s \<noteq> []) \<longrightarrow>
      tnpointseq_azimuth2 K normi seq =
        Inr [tsequence_make normi
               (concat (map snd segments) @
                [tinstant_make (tinstant_value (last (concat (map snd segments))))
                   (tinstant_t (last (seq_instants seq)))])
               True True False True]) \<and>
   (seq_instants seq \<noteq> [] \<longrightarrow>
      tnpointseq_azimuth2 K normi seq =
        bind_error (azimuth_segments K (seq_instants seq)) (\<lambda>segments.
          Inr (azimuth_runs normi segments [] (tinstant_t (last (seq_instants seq)))))) \<and>
   (seq_linear seq \<longrightarrow>
      tnpoint_azimuth K normi norms (SEQUENCE seq) =
        bind_error (tnpointseq_azimuth2 K normi seq) (\<lambda>sequences.
          Inr (if sequences = [] then None
               else Some (SEQUENCESET (tsequenceset_make norms sequences True))))) \<and>
   (seq_linear seq \<and> seq_instants seq \<noteq> [] \<and>
    (\<forall>i < length (seq_instants seq) - 1.
       pos (tinstant_value (seq_instants seq ! i)) =
       pos (tinstant_value (seq_instants seq ! (i + 1)))) \<longrightarrow>
      tnpoint_azimuth K normi norms (SEQUENCE seq) = Inr None)"
proof -
  have A: "pos (tinstant_value a) = pos (tinstant_value b) \<longrightarrow>
      tnpointseq_azimuth1 K a b = Inr [] \<and>
      tnpointseq_azimuth2 K normi (seq\<lparr>seq_instants := P @ a # b # Q\<rparr>) =
        bind_error (tnpointseq_azimuth2 K normi (seq\<lparr>seq_instants := P @ [a]\<rparr>)) (\<lambda>sequences1.
        bind_error (tnpointseq_azimuth2 K normi (seq\<lparr>seq_instants := b # Q\<rparr>)) (\<lambda>sequences2.
          Inr (sequences1 @ sequences2)))"
    by (intro impI conjI) (erule tnpointseq_azimuth1_constant, erule tnpointseq_azimuth2_split)
  have B: "2 \<le> length (seq_instants seq) \<and> azimuth_segments K (seq_instants seq) = Inr segments \<and>
    (\<forall>s \<in> set segments. snd s \<noteq> []) \<longrightarrow>
      tnpointseq_azimuth2 K normi seq =
        Inr [tsequence_make normi
               (concat (map snd segments) @
                [tinstant_make (tinstant_value (last (concat (map snd segments))))
                   (tinstant_t (last (seq_instants seq)))])
               True True False True]"
    by (intro impI, elim conjE, rule tnpointseq_azimuth2_one_run)
  have C: "seq_instants seq \<noteq> [] \<longrightarrow>
      tnpointseq_azimuth2 K normi seq =
        bind_error (azimuth_segments K (seq_instants seq)) (\<lambda>segments.
          Inr (azimuth_runs normi segments [] (tinstant_t (last (seq_instants seq)))))"
    by (intro impI, erule tnpointseq_azimuth2_runs)
  have D: "seq_linear seq \<longrightarrow>
      tnpoint_azimuth K normi norms (SEQUENCE seq) =
        bind_error (tnpointseq_azimuth2 K normi seq) (\<lambda>sequences.
          Inr (if sequences = [] then None
               else Some (SEQUENCESET (tsequenceset_make norms sequences True))))"
    by (intro impI, erule tnpoint_azimuth_linear_sequence)
  have E: "seq_linear seq \<and> seq_instants seq \<noteq> [] \<and>
    (\<forall>i < length (seq_instants seq) - 1.
       pos (tinstant_value (seq_instants seq ! i)) =
       pos (tinstant_value (seq_instants seq ! (i + 1)))) \<longrightarrow>
      tnpoint_azimuth K normi norms (SEQUENCE seq) = Inr None"
  proof
    assume "seq_linear seq \<and> seq_instants seq \<noteq> [] \<and>
      (\<forall>i < length (seq_instants seq) - 1.
         pos (tinstant_value (seq_instants seq ! i)) =
         pos (tinstant_value (seq_instants seq ! (i + 1))))"
    then have lin: "seq_linear seq" and "tnpointseq_azimuth2 K normi seq = Inr []"
      using tnpointseq_azimuth2_all_constant [of seq K normi] by simp_all
    then show "tnpoint_azimuth K normi norms (SEQUENCE seq) = Inr None"
      by (simp add: tnpoint_azimuth_linear_sequence [OF lin] bind_error_Inr
          del: tnpoint_azimuth.simps)
  qed
  show ?thesis
    by (intro conjI A B C D E)
qed

text \<open>
  A kernel whose trajectories have two vertices and whose azimuth is always 1. The sequence
  at the positions 0, 1/2, 1/2 and 1 is split at its constant segment into the sequences
  over the times 0 to 10 and 20 to 30; the sequence at 0 and 1/2 is one run; the sequence at
  1/2 and 1/2 has no azimuth.
\<close>

theorem tnpointseq_azimuth_constant_segments_witness:
  "pos (tinstant_value (tinstant_make \<lparr>rid = 1, pos = 1/2\<rparr> 10)) =
     pos (tinstant_value (tinstant_make \<lparr>rid = 1, pos = 1/2\<rparr> 20)) \<and>
   azimuth_segments
     \<lparr>LWGEOM_numpoints_linestring = \<lambda>traj. 2, LWGEOM_pointn_linestring = \<lambda>traj n. n,
      LWGEOM_line_locate_point = \<lambda>traj v. 1, LWGEOM_azimuth = \<lambda>v1 v2. 1\<rparr>
     [tinstant_make \<lparr>rid = 1, pos = 0\<rparr> 0, tinstant_make \<lparr>rid = 1, pos = 1/2\<rparr> 10] =
     Inr [(0, [tinstant_make 1 0])] \<and>
   tnpointseq_azimuth2
     \<lparr>LWGEOM_numpoints_linestring = \<lambda>traj. 2, LWGEOM_pointn_linestring = \<lambda>traj n. n,
      LWGEOM_line_locate_point = \<lambda>traj v. 1, LWGEOM_azimuth = \<lambda>v1 v2. 1\<rparr>
     (\<lambda>l xs. xs)
     \<lparr>seq_instants = [tinstant_make \<lparr>rid = 1, pos = 0\<rparr> 0, tinstant_make \<lparr>rid = 1, pos = 1/2\<rparr> 10],
      lower_inc = True, upper_inc = True, seq_linear = True\<rparr> =
     Inr [\<lparr>seq_instants = [tinstant_make 1 0, tinstant_make 1 10],
            lower_inc = True, upper_inc = True, seq_linear = False\<rparr>] \<and>
   tnpointseq_azimuth2
     \<lparr>LWGEOM_numpoints_linestring = \<lambda>traj. 2, LWGEOM_pointn_linestring = \<lambda>traj n. n,
      LWGEOM_line_locate_point = \<lambda>traj v. 1, LWGEOM_azimuth = \<lambda>v1 v2. 1\<rparr>
     (\<lambda>l xs. xs)
     \<lparr>seq_instants = [tinstant_make \<lparr>rid = 1, pos = 0\<rparr> 0, tinstant_make \<lparr>rid = 1, pos = 1/2\<rparr> 10,
        tinstant_make \<lparr>rid = 1, pos = 1/2\<rparr> 20, tinstant_make \<lparr>rid = 1, pos = 1\<rparr> 30],
      lower_inc = True, upper_inc = True, seq_linear = True\<rparr> =
     Inr [\<lparr>seq_instants = [tinstant_make 1 0, tinstant_make 1 10],
            lower_inc = True, upper_inc = True, seq_linear = False\<rparr>,
          \<lparr>seq_instants = [tinstant_make 1 20, tinstant_make 1 30],
            lower_inc = True, upper_inc = True, seq_linear = False\<rparr>] \<and>
   tnpoint_azimuth
     \<lparr>LWGEOM_numpoints_linestring = \<lambda>traj. 2, LWGEOM_pointn_linestring = \<lambda>traj n. n,
      LWGEOM_line_locate_point = \<lambda>traj v. 1, LWGEOM_azimuth = \<lambda>v1 v2. 1\<rparr>
     (\<lambda>l xs. xs) (\<lambda>xs. xs)
     (SEQUENCE \<lparr>seq_instants = [tinstant_make \<lparr>rid = 1, pos = 1/2\<rparr> 10,
        tinstant_make \<lparr>rid = 1, pos = 1/2\<rparr> 20],
      lower_inc = True, upper_inc = True, seq_linear = True\<rparr>) = Inr None"
  using tnpointseq_azimuth_constant_segments [where
      a = "tinstant_make \<lparr>rid = 1, pos = 1/2\<rparr> 10" and
      b = "tinstant_make \<lparr>rid = 1, pos = 1/2\<rparr> 20" and
      K = "\<lparr>LWGEOM_numpoints_linestring = \<lambda>traj. 2, LWGEOM_pointn_linestring = \<lambda>traj n. n,
        LWGEOM_line_locate_point = \<lambda>traj v. 1, LWGEOM_azimuth = \<lambda>v1 v2. 1\<rparr>" and
      normi = "\<lambda>l xs. xs" and
      seq = "\<lparr>seq_instants = [tinstant_make \<lparr>rid = 1, pos = 1/2\<rparr> 10,
        tinstant_make \<lparr>rid = 1, pos = 1/2\<rparr> 20],
      lower_inc = True, upper_inc = True, seq_linear = True\<rparr>" and
      P = "[tinstant_make \<lparr>rid = 1, pos = 0\<rparr> 0]" and
      Q = "[tinstant_make \<lparr>rid = 1, pos = 1\<rparr> 30]" and
      segments = "[]" and norms = "\<lambda>xs. xs"]
    tnpointseq_azimuth_constant_segments [where
      a = "tinstant_make \<lparr>rid = 1, pos = 1/2\<rparr> 10" and
      b = "tinstant_make \<lparr>rid = 1, pos = 1/2\<rparr> 20" and
      K = "\<lparr>LWGEOM_numpoints_linestring = \<lambda>traj. 2, LWGEOM_pointn_linestring = \<lambda>traj n. n,
        LWGEOM_line_locate_point = \<lambda>traj v. 1, LWGEOM_azimuth = \<lambda>v1 v2. 1\<rparr>" and
      normi = "\<lambda>l xs. xs" and
      seq = "\<lparr>seq_instants = [tinstant_make \<lparr>rid = 1, pos = 0\<rparr> 0,
        tinstant_make \<lparr>rid = 1, pos = 1/2\<rparr> 10],
      lower_inc = True, upper_inc = True, seq_linear = True\<rparr>" and
      P = "[]" and Q = "[]" and
      segments = "[(0, [tinstant_make 1 0])]" and norms = "\<lambda>xs. xs"]
  by (simp add: tnpointseq_azimuth2_def seq_count_def tsequence_inst_n_def
      tnpointseq_azimuth1_def tnpointseq_trajectory1_def bind_error_def azimuth2_assemble_def
      tsequence_make_def tinstant_make_def cast_long_def Let_def STEP_def
      del: tnpoint_azimuth.simps)


end
